theory Spec2Isabelle
  imports Main
begin

section \<open>JavaScript values\<close>

text \<open>
  The values that cross the message channels and reach the handlers. Numbers are the
  integers (no NaN, no fractions); an object is its list of own properties, in the
  order in which the object enumerates them.
\<close>

datatype jsval =
    JUndefined
  | JNull
  | JBool bool
  | JNum int
  | JStr string
  | JArr "jsval list"
  | JObj "(string \<times> jsval) list"

text \<open>\<^verbatim>\<open>if (v)\<close>, \<^verbatim>\<open>!v\<close>, \<^verbatim>\<open>v && ...\<close>: every object and array is truthy, also the empty ones.\<close>

fun truthy :: "jsval \<Rightarrow> bool" where
  "truthy JUndefined = False"
| "truthy JNull = False"
| "truthy (JBool b) = b"
| "truthy (JNum n) = (n \<noteq> 0)"
| "truthy (JStr s) = (s \<noteq> [])"
| "truthy (JArr xs) = True"
| "truthy (JObj kvs) = True"

definition js_or :: "jsval \<Rightarrow> jsval \<Rightarrow> jsval" where
  "js_or a b = (if truthy a then a else b)"

definition digit_char :: "nat \<Rightarrow> char" where
  "digit_char d = ''0123456789'' ! d"

fun show_nat :: "nat \<Rightarrow> string" where
  "show_nat n = (if n < 10 then [digit_char n] else show_nat (n div 10) @ [digit_char (n mod 10)])"

declare show_nat.simps [simp del]

definition show_int :: "int \<Rightarrow> string" where
  "show_int i = (if i < 0 then CHR ''-'' # show_nat (nat (- i)) else show_nat (nat i))"

fun join_with :: "string \<Rightarrow> string list \<Rightarrow> string" where
  "join_with sep [] = []"
| "join_with sep [x] = x"
| "join_with sep (x # y # ys) = x @ sep @ join_with sep (y # ys)"

text \<open>String conversion, as a template literal or \<^verbatim>\<open>String(v)\<close> does it.\<close>

fun js_to_string :: "jsval \<Rightarrow> string" where
  "js_to_string JUndefined = ''undefined''"
| "js_to_string JNull = ''null''"
| "js_to_string (JBool b) = (if b then ''true'' else ''false'')"
| "js_to_string (JNum n) = show_int n"
| "js_to_string (JStr s) = s"
| "js_to_string (JArr xs) =
     join_with '','' (map (\<lambda>x. if x = JUndefined \<or> x = JNull then [] else js_to_string x) xs)"
| "js_to_string (JObj kvs) = ''[object Object]''"

text \<open>Property read \<^verbatim>\<open>v.k\<close> on a value that is neither null nor undefined.\<close>

fun js_get :: "jsval \<Rightarrow> string \<Rightarrow> jsval" where
  "js_get (JObj kvs) k = (case map_of kvs k of Some v \<Rightarrow> v | None \<Rightarrow> JUndefined)"
| "js_get v k = JUndefined"

text \<open>Optional chaining \<^verbatim>\<open>v?.k\<close>.\<close>

definition js_opt_get :: "jsval \<Rightarrow> string \<Rightarrow> jsval" where
  "js_opt_get v k = (if v = JUndefined \<or> v = JNull then JUndefined else js_get v k)"

datatype js_error = JsError (err_name: string) (err_message: string)

section \<open>HTTP and the outside world\<close>

record request =
  rq_method :: string
  rq_url :: string
  rq_headers :: "(string \<times> string) list"
  rq_body :: "jsval option"

text \<open>
  \<open>rq_body\<close> holds the value handed to \<^verbatim>\<open>JSON.stringify\<close>; \<open>None\<close> is a request
  without body. A response carries the result of both ways of reading its body:
  \<open>rs_text\<close> is \<^verbatim>\<open>response.text()\<close>, \<open>rs_json\<close> is \<^verbatim>\<open>response.json()\<close>, \<open>Inl\<close> the
  message of the error it throws on a malformed body.
\<close>

record response =
  rs_status :: nat
  rs_statusText :: string
  rs_contentType :: "string option"
  rs_text :: string
  rs_json :: "string + jsval"

type_synonym fetch_outcome = "js_error + response"

definition ok :: "response \<Rightarrow> bool" where
  "ok r = (200 \<le> rs_status r \<and> rs_status r \<le> 299)"

text \<open>
  The world a context runs in: every request handed to \<^verbatim>\<open>fetch\<close> so far, in order,
  and the clock that \<^verbatim>\<open>Date.now()\<close> reads (milliseconds).
\<close>

record world =
  w_trace :: "request list"
  w_clock :: int

text \<open>
  The environment: the network answers a request, given everything issued before it,
  with an outcome (a response, or the error \<^verbatim>\<open>fetch\<close> throws) after a delay in
  milliseconds. \<^verbatim>\<open>encodeURIComponent\<close>, the percent-encoding of
  \<^verbatim>\<open>URLSearchParams\<close>, \<^verbatim>\<open>Date.prototype.toISOString\<close> and the parsing and writing
  back of a query string (\<^verbatim>\<open>new URLSearchParams(string).toString()\<close>) are the platform's
  and are taken as parameters, and as total functions: none of them throws.
\<close>

record env =
  e_net :: "request list \<Rightarrow> request \<Rightarrow> fetch_outcome \<times> nat"
  e_encodeURIComponent :: "string \<Rightarrow> string"
  e_formEncode :: "string \<Rightarrow> string"
  e_toISOString :: "int \<Rightarrow> string"
  e_parseQuery :: "string \<Rightarrow> string"

definition AbortError :: js_error where
  "AbortError = JsError ''AbortError'' ''The user aborted a request.''"

text \<open>
  \<^verbatim>\<open>await fetch(url, options)\<close>, with the \<^verbatim>\<open>AbortController\<close> timer when the caller
  sets one: an answer that takes the timeout or longer is an \<^verbatim>\<open>AbortError\<close>.
\<close>

definition fetch :: "env \<Rightarrow> nat option \<Rightarrow> request \<Rightarrow> world \<Rightarrow> fetch_outcome \<times> world" where
  "fetch env tmo rq w =
     (let (out, d) = e_net env (w_trace w) rq;
          w' = w\<lparr>w_trace := w_trace w @ [rq]\<rparr>
      in case tmo of
           None \<Rightarrow> (out, w'\<lparr>w_clock := w_clock w + int d\<rparr>)
         | Some t \<Rightarrow>
             if t \<le> d then (Inl AbortError, w'\<lparr>w_clock := w_clock w + int t\<rparr>)
             else (out, w'\<lparr>w_clock := w_clock w + int d\<rparr>))"

definition response_ok :: "fetch_outcome \<Rightarrow> bool" where
  "response_ok out = (case out of Inl e \<Rightarrow> False | Inr r \<Rightarrow> ok r)"

section \<open>Discovery sweep\<close>

definition base_url :: "string \<Rightarrow> nat \<Rightarrow> string" where
  "base_url host port = ''http://'' @ host @ '':'' @ show_nat port"

definition probe_request :: "string \<Rightarrow> nat \<Rightarrow> request" where
  "probe_request host port =
     \<lparr>rq_method = ''GET'',
      rq_url = base_url host port @ ''/airnavx/api/viewer/search?q=test&page=1'',
      rq_headers = [(''Accept'', ''application/json'')],
      rq_body = None\<rparr>"

text \<open>
  The inner loop \<^verbatim>\<open>for (const port of candidatePorts)\<close>: a probe that throws or answers
  outside 2xx goes on to the next port; the first 2xx answer leaves the loops.
\<close>

fun sweep_ports :: "env \<Rightarrow> nat option \<Rightarrow> string \<Rightarrow> nat list \<Rightarrow> world \<Rightarrow> nat option \<times> world" where
  "sweep_ports env tmo host [] w = (None, w)"
| "sweep_ports env tmo host (port # ports) w =
     (let (out, w') = fetch env tmo (probe_request host port) w
      in if response_ok out then (Some port, w') else sweep_ports env tmo host ports w')"

text \<open>The outer loop \<^verbatim>\<open>for (const host of hostsToTest)\<close>.\<close>

fun sweep_hosts ::
  "env \<Rightarrow> nat option \<Rightarrow> string list \<Rightarrow> nat list \<Rightarrow> world \<Rightarrow> (string \<times> nat) option \<times> world" where
  "sweep_hosts env tmo [] ports w = (None, w)"
| "sweep_hosts env tmo (host # hosts) ports w =
     (case sweep_ports env tmo host ports w of
        (Some port, w') \<Rightarrow> (Some (host, port), w')
      | (None, w') \<Rightarrow> sweep_hosts env tmo hosts ports w')"

text \<open>
  The same sweep over one flat list of (host, port) pairs, host-major: the order in
  which the double loop visits its candidates.
\<close>

fun sweep_flat ::
  "env \<Rightarrow> nat option \<Rightarrow> (string \<times> nat) list \<Rightarrow> world \<Rightarrow> (string \<times> nat) option \<times> world" where
  "sweep_flat env tmo [] w = (None, w)"
| "sweep_flat env tmo ((host, port) # cs) w =
     (let (out, w') = fetch env tmo (probe_request host port) w
      in if response_ok out then (Some (host, port), w') else sweep_flat env tmo cs w')"

definition probe_of :: "string \<times> nat \<Rightarrow> request" where
  "probe_of c = probe_request (fst c) (snd c)"

text \<open>Whether the probe of candidate \<open>c\<close> is answered with 2xx when \<open>tr\<close> was issued before it.\<close>

definition probe_ok :: "env \<Rightarrow> nat option \<Rightarrow> request list \<Rightarrow> string \<times> nat \<Rightarrow> bool" where
  "probe_ok env tmo tr c =
     response_ok (fst (fetch env tmo (probe_of c) \<lparr>w_trace = tr, w_clock = 0\<rparr>))"

section \<open>The relay (content script)\<close>

definition MESSAGE_PREFIX :: string where
  "MESSAGE_PREFIX = ''AIRNAVX_BRIDGE_''"

definition relay_CACHE_DURATION :: int where
  "relay_CACHE_DURATION = 30000"

definition relay_candidatePorts :: "nat list" where
  "relay_candidatePorts = [59720, 51798, 54320, 52000, 51800, 50000, 53000]"

definition relay_hostsToTest :: "string list" where
  "relay_hostsToTest = [''127.0.0.1'', ''localhost'']"

text \<open>
  The object a detection returns: \<^verbatim>\<open>{success: true, host, port, message}\<close> or
  \<^verbatim>\<open>{success: false, message}\<close>.
\<close>

datatype detection =
    Detected (det_host: string) (det_port: nat) (det_message: string)
  | NotDetected (det_message: string)

fun detection_js :: "detection \<Rightarrow> jsval" where
  "detection_js (Detected host port message) =
     JObj [(''success'', JBool True), (''host'', JStr host), (''port'', JNum (int port)),
           (''message'', JStr message)]"
| "detection_js (NotDetected message) =
     JObj [(''success'', JBool False), (''message'', JStr message)]"

definition detection_of :: "(string \<times> nat) option \<Rightarrow> detection" where
  "detection_of r =
     (case r of
        Some (host, port) \<Rightarrow>
          Detected host port (''AirNavX detected at '' @ host @ '':'' @ show_nat port)
      | None \<Rightarrow> NotDetected ''AirNavX not detected on any port'')"

record relay_state =
  airnavxCache :: "detection option"
  airnavxCacheTimestamp :: int

definition relay_init :: relay_state where
  "relay_init = \<lparr>airnavxCache = None, airnavxCacheTimestamp = 0\<rparr>"

text \<open>
  \<^verbatim>\<open>detectAirNavX(detailed)\<close> of the content script. The parameter is never read. Both
  exits of the sweep store their result object and the time in the cache.
\<close>

definition relay_detectAirNavX ::
  "env \<Rightarrow> jsval \<Rightarrow> relay_state \<times> world \<Rightarrow> detection \<times> relay_state \<times> world" where
  "relay_detectAirNavX env detailed sw =
     (let (st, w) = sw; now = w_clock w
      in if airnavxCache st \<noteq> None \<and> now - airnavxCacheTimestamp st < relay_CACHE_DURATION
         then (the (airnavxCache st), st, w)
         else
           (let (found, w') = sweep_hosts env (Some 2000) relay_hostsToTest relay_candidatePorts w;
                result = detection_of found
            in (result, \<lparr>airnavxCache = Some result, airnavxCacheTimestamp = w_clock w'\<rparr>, w')))"

text \<open>\<^verbatim>\<open>new URLSearchParams(obj).toString()\<close>: every value is converted to a string.\<close>

definition query_string :: "env \<Rightarrow> (string \<times> jsval) list \<Rightarrow> string" where
  "query_string env params =
     join_with ''&''
       (map (\<lambda>(k, v). e_formEncode env k @ ''='' @ e_formEncode env (js_to_string v)) params)"

definition aggregationList :: jsval where
  "aggregationList = JArr [JStr ''ata2'', JStr ''actype'', JStr ''customization'', JStr ''doctypebc'']"

definition relay_searchTasks ::
  "env \<Rightarrow> jsval \<Rightarrow> jsval \<Rightarrow> relay_state \<times> world \<Rightarrow> (js_error + jsval) \<times> relay_state \<times> world" where
  "relay_searchTasks env query page0 sw =
     (let page = (if page0 = JUndefined then JNum 1 else page0);
          (detection, st, w) = relay_detectAirNavX env JUndefined sw
      in case detection of
           NotDetected m \<Rightarrow> (Inl (JsError ''Error'' ''AirNavX not available''), st, w)
         | Detected host port m \<Rightarrow>
             if page = JNull
             then (Inl (JsError ''TypeError'' ''Cannot read properties of null''), st, w)
             else
               (let searchUrl = base_url host port @ ''/airnavx/api/viewer/search'';
                    params = query_string env
                      [(''q'', query), (''page'', JStr (js_to_string page)),
                       (''aggregationList'', aggregationList),
                       (''queryWithAggregation'', JStr ''false'')];
                    (out, w') = fetch env None
                      \<lparr>rq_method = ''GET'', rq_url = searchUrl @ ''?'' @ params,
                       rq_headers = [(''Accept'', ''application/json'')], rq_body = None\<rparr> w
                in case out of
                     Inl e \<Rightarrow> (Inl e, st, w')
                   | Inr r \<Rightarrow>
                       if \<not> ok r
                       then (Inl (JsError ''Error''
                               (''Search failed with status '' @ show_nat (rs_status r))), st, w')
                       else (case rs_json r of
                               Inl m \<Rightarrow> (Inl (JsError ''SyntaxError'' m), st, w')
                             | Inr data \<Rightarrow>
                                 (Inr (JObj [(''success'', JBool True), (''data'', data)]), st, w'))))"

text \<open>One entry of the \<^verbatim>\<open>attempts\<close> array; a missing \<^verbatim>\<open>body\<close> reads as undefined.\<close>

record attempt =
  at_name :: string
  at_url :: string
  at_method :: string
  at_body :: jsval

definition relay_attempts :: "env \<Rightarrow> string \<Rightarrow> nat \<Rightarrow> jsval \<Rightarrow> attempt list" where
  "relay_attempts env host port dataModuleId =
     (let b = base_url host port; i = e_encodeURIComponent env (js_to_string dataModuleId)
      in [\<lparr>at_name = ''GET with dataModuleId param'',
           at_url = b @ ''/airnavx/api/dataModule/content?dataModuleId='' @ i,
           at_method = ''GET'', at_body = JUndefined\<rparr>,
          \<lparr>at_name = ''GET with all params'',
           at_url = b @ ''/airnavx/api/dataModule/content?dataModuleId='' @ i
                      @ ''&forHatch=false&forPrint=false'',
           at_method = ''GET'', at_body = JUndefined\<rparr>,
          \<lparr>at_name = ''GET with dmCode param'',
           at_url = b @ ''/airnavx/api/dataModule/content?dmCode='' @ i,
           at_method = ''GET'', at_body = JUndefined\<rparr>,
          \<lparr>at_name = ''GET with id param'',
           at_url = b @ ''/airnavx/api/dataModule/content?id='' @ i,
           at_method = ''GET'', at_body = JUndefined\<rparr>,
          \<lparr>at_name = ''GET alternative endpoint'',
           at_url = b @ ''/airnavx/api/content/'' @ i,
           at_method = ''GET'', at_body = JUndefined\<rparr>,
          \<lparr>at_name = ''GET viewer endpoint'',
           at_url = b @ ''/airnavx/api/viewer/content?dataModuleId='' @ i,
           at_method = ''GET'', at_body = JUndefined\<rparr>,
          \<lparr>at_name = ''POST with JSON body'',
           at_url = b @ ''/airnavx/api/dataModule/content'',
           at_method = ''POST'',
           at_body = JObj [(''dataModuleId'', dataModuleId), (''forHatch'', JBool False),
                           (''forPrint'', JBool False)]\<rparr>])"

fun starts_with :: "string \<Rightarrow> string \<Rightarrow> bool" where
  "starts_with s [] = True"
| "starts_with [] (c # cs) = False"
| "starts_with (x # xs) (c # cs) = (x = c \<and> starts_with xs cs)"

text \<open>\<^verbatim>\<open>s.includes(sub)\<close>\<close>

fun str_includes :: "string \<Rightarrow> string \<Rightarrow> bool" where
  "str_includes [] sub = (sub = [])"
| "str_includes (x # xs) sub = (starts_with (x # xs) sub \<or> str_includes xs sub)"

definition relay_attempt_request :: "attempt \<Rightarrow> request" where
  "relay_attempt_request a =
     (if at_method a = ''POST'' \<and> truthy (at_body a)
      then \<lparr>rq_method = at_method a, rq_url = at_url a,
            rq_headers = [(''Accept'', ''application/json''), (''Content-Type'', ''application/json'')],
            rq_body = Some (at_body a)\<rparr>
      else \<lparr>rq_method = at_method a, rq_url = at_url a,
            rq_headers = [(''Accept'', ''application/json'')], rq_body = None\<rparr>)"

text \<open>
  What one pass through the loop body makes of the outcome of its request: \<open>Inr\<close> the
  data it returns with, \<open>Inl\<close> the reason it records before going on. A 2xx answer
  whose declared JSON body does not parse lands in the \<^verbatim>\<open>catch\<close> like a network error.
\<close>

definition relay_attempt_result :: "fetch_outcome \<Rightarrow> string + jsval" where
  "relay_attempt_result out =
     (case out of
        Inl e \<Rightarrow> Inl (if err_name e = ''AbortError'' then ''Request timeout (10s)'' else err_message e)
      | Inr r \<Rightarrow>
          if ok r then
            (case rs_contentType r of
               None \<Rightarrow> Inr (JStr (rs_text r))
             | Some ct \<Rightarrow>
                 if ct \<noteq> [] \<and> str_includes ct ''application/json''
                 then (case rs_json r of Inl m \<Rightarrow> Inl m | Inr data \<Rightarrow> Inr data)
                 else Inr (JStr (rs_text r)))
          else Inl (''HTTP '' @ show_nat (rs_status r) @ '': '' @ rs_statusText r))"

text \<open>The loop \<^verbatim>\<open>for (let i = 0; i < attempts.length; i++)\<close> with its \<^verbatim>\<open>errors\<close> array.\<close>

fun relay_try_attempts ::
  "env \<Rightarrow> attempt list \<Rightarrow> string list \<Rightarrow> world \<Rightarrow> (string list + jsval) \<times> world" where
  "relay_try_attempts env [] errors w = (Inl errors, w)"
| "relay_try_attempts env (a # as) errors w =
     (let (out, w') = fetch env (Some 10000) (relay_attempt_request a) w
      in case relay_attempt_result out of
           Inr data \<Rightarrow>
             (Inr (JObj [(''success'', JBool True), (''data'', data), (''method'', JStr (at_name a))]), w')
         | Inl errorMsg \<Rightarrow>
             relay_try_attempts env as (errors @ [at_name a @ '': '' @ errorMsg]) w')"

definition newline :: string where
  "newline = [CHR 0x0A]"

definition relay_fetchContent ::
  "env \<Rightarrow> jsval \<Rightarrow> relay_state \<times> world \<Rightarrow> (js_error + jsval) \<times> relay_state \<times> world" where
  "relay_fetchContent env dataModuleId sw =
     (if \<not> truthy dataModuleId
      then (Inl (JsError ''Error'' ''dataModuleId is required''), sw)
      else
        (let (detection, st, w) = relay_detectAirNavX env JUndefined sw
         in case detection of
              NotDetected m \<Rightarrow> (Inl (JsError ''Error'' ''AirNavX not available''), st, w)
            | Detected host port m \<Rightarrow>
                (let attempts = relay_attempts env host port dataModuleId
                 in case relay_try_attempts env attempts [] w of
                      (Inr result, w') \<Rightarrow> (Inr result, st, w')
                    | (Inl errors, w') \<Rightarrow>
                        (Inl (JsError ''Error''
                           (''Failed to fetch content after '' @ show_nat (length attempts)
                              @ '' attempts:'' @ newline @ join_with newline errors)), st, w'))))"

text \<open>
  A \<^verbatim>\<open>message\<close> event: whether \<^verbatim>\<open>event.source === window\<close>, and \<^verbatim>\<open>event.data\<close>.
\<close>

record message_event =
  ev_from_window :: bool
  ev_data :: jsval

definition destructure_error :: js_error where
  "destructure_error = JsError ''TypeError'' ''Cannot destructure event.data''"

text \<open>
  The listener of \<^verbatim>\<open>setupMessageBridge\<close>. \<open>Inl\<close> is an exception that leaves the listener
  (destructuring null or undefined); otherwise the messages posted to the page, and
  the new state.
\<close>

definition relay_on_message ::
  "env \<Rightarrow> message_event \<Rightarrow> relay_state \<times> world \<Rightarrow> js_error + (jsval list \<times> relay_state \<times> world)" where
  "relay_on_message env ev sw =
     (if \<not> ev_from_window ev then Inr ([], sw)
      else if ev_data ev = JNull \<or> ev_data ev = JUndefined then Inl destructure_error
      else
        (let type = js_get (ev_data ev) ''type'';
             method = js_get (ev_data ev) ''method'';
             params = js_get (ev_data ev) ''params'';
             requestId = js_get (ev_data ev) ''requestId''
         in if type \<noteq> JStr (MESSAGE_PREFIX @ ''REQUEST'') then Inr ([], sw)
            else if \<not> truthy method then Inr ([], sw)
            else
              (let (res, st, w) =
                     (if method = JStr ''detect'' then
                        (let (d, st, w) =
                               relay_detectAirNavX env (js_or (js_opt_get params ''detailed'') (JBool False)) sw
                         in (Inr (detection_js d), st, w))
                      else if method = JStr ''search'' then
                        relay_searchTasks env (js_opt_get params ''query'') (js_opt_get params ''page'') sw
                      else if method = JStr ''fetchContent'' then
                        relay_fetchContent env (js_opt_get params ''dataModuleId'') sw
                      else (Inl (JsError ''Error'' (''Unknown method: '' @ js_to_string method)), sw))
               in case res of
                    Inr result \<Rightarrow>
                      Inr ([JObj [(''type'', JStr (MESSAGE_PREFIX @ ''RESPONSE'')),
                                  (''requestId'', requestId), (''result'', result)]], st, w)
                  | Inl e \<Rightarrow>
                      Inr ([JObj [(''type'', JStr (MESSAGE_PREFIX @ ''RESPONSE'')),
                                  (''requestId'', requestId), (''error'', JStr (err_message e)),
                                  (''errorDetails'',
                                     JObj [(''method'', method), (''params'', params),
                                           (''timestamp'', JStr (e_toISOString env (w_clock w)))])]],
                           st, w))))"

section \<open>The caller-side client (injected script)\<close>

text \<open>How the promise returned by a call ended.\<close>

datatype settlement = Resolved jsval | Rejected string

text \<open>
  The client's variables (\<^verbatim>\<open>requestCounter\<close>, the keys of \<^verbatim>\<open>pendingRequests\<close>), and
  what it did to its surroundings: the promise of each call (by request id), the
  messages posted, the timers set (deadline, request id) and the ids it warned about.
\<close>

record client_state =
  requestCounter :: int
  pendingRequests :: "int set"
  settled :: "int \<rightharpoonup> settlement"
  posted :: "jsval list"
  timers :: "(int \<times> int) list"
  warnings :: "jsval list"

definition client_init :: client_state where
  "client_init =
     \<lparr>requestCounter = 0, pendingRequests = {}, settled = Map.empty, posted = [],
      timers = [], warnings = []\<rparr>"

text \<open>\<^verbatim>\<open>resolve\<close> and \<^verbatim>\<open>reject\<close>: only the first call on a promise counts.\<close>

definition settle :: "int \<Rightarrow> settlement \<Rightarrow> client_state \<Rightarrow> client_state" where
  "settle requestId s c =
     (if settled c requestId = None then c\<lparr>settled := (settled c)(requestId \<mapsto> s)\<rparr> else c)"

definition TIMEOUT_MS :: int where
  "TIMEOUT_MS = 30000"

text \<open>\<^verbatim>\<open>sendMessage(method, params)\<close> called at time \<open>now\<close>; returns the id it allocated.\<close>

definition sendMessage :: "jsval \<Rightarrow> jsval \<Rightarrow> int \<Rightarrow> client_state \<Rightarrow> int \<times> client_state" where
  "sendMessage method params now c =
     (let requestId = requestCounter c + 1
      in (requestId,
          c\<lparr>requestCounter := requestId,
            pendingRequests := insert requestId (pendingRequests c),
            posted := posted c @
              [JObj [(''type'', JStr (MESSAGE_PREFIX @ ''REQUEST'')), (''method'', method),
                     (''params'', params), (''requestId'', JNum requestId)]],
            timers := timers c @ [(now + TIMEOUT_MS, requestId)]\<rparr>))"

text \<open>The callback handed to \<^verbatim>\<open>setTimeout\<close> by the call \<open>requestId\<close>.\<close>

definition client_on_timeout :: "int \<Rightarrow> client_state \<Rightarrow> client_state" where
  "client_on_timeout requestId c =
     (if requestId \<in> pendingRequests c
      then settle requestId (Rejected ''Request timeout'')
             (c\<lparr>pendingRequests := pendingRequests c - {requestId}\<rparr>)
      else c)"

text \<open>
  The client's \<^verbatim>\<open>message\<close> listener; \<open>Inl\<close> is an exception that leaves the listener.
  \<^verbatim>\<open>pendingRequests.get(requestId)\<close> finds an entry only for a number that is a key.
\<close>

definition client_on_message :: "message_event \<Rightarrow> client_state \<Rightarrow> js_error + client_state" where
  "client_on_message ev c =
     (if \<not> ev_from_window ev then Inr c
      else if ev_data ev = JNull \<or> ev_data ev = JUndefined then Inl destructure_error
      else
        (let type = js_get (ev_data ev) ''type'';
             requestId = js_get (ev_data ev) ''requestId'';
             result = js_get (ev_data ev) ''result'';
             error = js_get (ev_data ev) ''error''
         in if type \<noteq> JStr (MESSAGE_PREFIX @ ''RESPONSE'') then Inr c
            else
              (case requestId of
                 JNum n \<Rightarrow>
                   if n \<in> pendingRequests c
                   then Inr ((if truthy error then settle n (Rejected (js_to_string error)) c
                              else settle n (Resolved result) c)
                             \<lparr>pendingRequests := pendingRequests c - {n}\<rparr>)
                   else Inr (c\<lparr>warnings := warnings c @ [requestId]\<rparr>)
               | _ \<Rightarrow> Inr (c\<lparr>warnings := warnings c @ [requestId]\<rparr>))))"

text \<open>The three operations of \<^verbatim>\<open>window.AirNavXBridge\<close>, with their default parameters.\<close>

definition client_detect :: "jsval \<Rightarrow> int \<Rightarrow> client_state \<Rightarrow> int \<times> client_state" where
  "client_detect detailed now c =
     sendMessage (JStr ''detect'')
       (JObj [(''detailed'', if detailed = JUndefined then JBool False else detailed)]) now c"

definition client_search :: "jsval \<Rightarrow> jsval \<Rightarrow> int \<Rightarrow> client_state \<Rightarrow> int \<times> client_state" where
  "client_search query page now c =
     sendMessage (JStr ''search'')
       (JObj [(''query'', query), (''page'', if page = JUndefined then JNum 1 else page)]) now c"

definition client_fetchContent :: "jsval \<Rightarrow> int \<Rightarrow> client_state \<Rightarrow> int \<times> client_state" where
  "client_fetchContent dataModuleId now c =
     sendMessage (JStr ''fetchContent'') (JObj [(''dataModuleId'', dataModuleId)]) now c"

text \<open>
  The event loop reaching time \<open>now\<close>: every timer that is due runs, in the order the
  timers were set, and leaves the timer list.
\<close>

definition timer_step :: "int \<Rightarrow> int \<times> int \<Rightarrow> client_state \<Rightarrow> client_state" where
  "timer_step now =
     (\<lambda>(deadline, requestId) c. if deadline \<le> now then client_on_timeout requestId c else c)"

definition run_timers :: "int \<Rightarrow> client_state \<Rightarrow> client_state" where
  "run_timers now c =
     (fold (timer_step now) (timers c) c)
     \<lparr>timers := filter (\<lambda>(deadline, requestId). now < deadline) (timers c)\<rparr>"

text \<open>
  What happens to the client: a message event reaches its listener (an exception ends
  that run of the listener only), the event loop reaches a time, or the page calls
  \<^verbatim>\<open>sendMessage\<close>.
\<close>

datatype client_event = Message message_event | Tick int | Call jsval jsval int

fun client_step :: "client_event \<Rightarrow> client_state \<Rightarrow> client_state" where
  "client_step (Message ev) c = (case client_on_message ev c of Inl e \<Rightarrow> c | Inr c' \<Rightarrow> c')"
| "client_step (Tick now) c = run_timers now c"
| "client_step (Call m p now) c = snd (sendMessage m p now c)"

declare client_step.simps(1) [simp del]

definition client_run :: "client_event list \<Rightarrow> client_state \<Rightarrow> client_state" where
  "client_run es c = fold client_step es c"

section \<open>The coordinator (background service worker)\<close>

definition AIRNAVX_CANDIDATE_PORTS :: "nat list" where
  "AIRNAVX_CANDIDATE_PORTS = [59720, 51798, 54320, 52000, 50000, 53000]"

definition AIRNAVX_HOSTS :: "string list" where
  "AIRNAVX_HOSTS = [''127.0.0.1'', ''localhost'']"

definition DETECTION_TIMEOUT :: nat where
  "DETECTION_TIMEOUT = 2000"

definition bg_CACHE_DURATION :: int where
  "bg_CACHE_DURATION = 5 * 60 * 1000"

text \<open>
  The worker's variables, the three keys it writes to \<^verbatim>\<open>chrome.storage.local\<close> and the
  badge (text, colour). Storage and badge calls are taken not to fail.
\<close>

record bg_state =
  detectedAirNavX :: "(string \<times> nat) option"
  lastDetectionTime :: "int option"
  bg_storage :: "(string \<times> nat \<times> int) option"
  bg_badge :: "(string \<times> string) option"

definition bg_init :: bg_state where
  "bg_init = \<lparr>detectedAirNavX = None, lastDetectionTime = None, bg_storage = None, bg_badge = None\<rparr>"

definition check_mark :: string where
  "check_mark = [CHR 0xE2, CHR 0x9C, CHR 0x93]"

definition cross_mark :: string where
  "cross_mark = [CHR 0xE2, CHR 0x9C, CHR 0x97]"

text \<open>
  The cache test of the worker's \<^verbatim>\<open>detectAirNavX\<close>: \<^verbatim>\<open>detectedAirNavX\<close> and
  \<^verbatim>\<open>lastDetectionTime\<close> must both be truthy (not null, and the time not 0).
\<close>

definition bg_cache_valid :: "bg_state \<Rightarrow> int \<Rightarrow> bool" where
  "bg_cache_valid st now =
     (detectedAirNavX st \<noteq> None \<and>
      (case lastDetectionTime st of
         None \<Rightarrow> False
       | Some t \<Rightarrow> t \<noteq> 0 \<and> now - t < bg_CACHE_DURATION))"

definition bg_detectAirNavX ::
  "env \<Rightarrow> bool \<Rightarrow> bg_state \<times> world \<Rightarrow> (string \<times> nat) option \<times> bg_state \<times> world" where
  "bg_detectAirNavX env forceRefresh sw =
     (let (st, w) = sw
      in if \<not> forceRefresh \<and> bg_cache_valid st (w_clock w)
         then (detectedAirNavX st, st, w)
         else
           (case sweep_hosts env (Some DETECTION_TIMEOUT) AIRNAVX_HOSTS AIRNAVX_CANDIDATE_PORTS w of
              (Some (host, port), w') \<Rightarrow>
                (Some (host, port),
                 st\<lparr>detectedAirNavX := Some (host, port),
                    lastDetectionTime := Some (w_clock w'),
                    bg_storage := Some (host, port, w_clock w'),
                    bg_badge := Some (check_mark, ''#10B981'')\<rparr>,
                 w')
            | (None, w') \<Rightarrow>
                (None,
                 st\<lparr>detectedAirNavX := None,
                    lastDetectionTime := Some (w_clock w'),
                    bg_badge := Some (cross_mark, ''#DC2626'')\<rparr>,
                 w')))"

text \<open>
  \<^verbatim>\<open>Object.keys(v)\<close>: the names of an object's properties, the indices of an array or of
  a string (one per character here; the code only asks whether there are any), none
  for a number or a boolean. \<open>None\<close> is the \<^verbatim>\<open>TypeError\<close> on null and undefined.
\<close>

fun object_keys :: "jsval \<Rightarrow> string list option" where
  "object_keys JUndefined = None"
| "object_keys JNull = None"
| "object_keys (JBool b) = Some []"
| "object_keys (JNum n) = Some []"
| "object_keys (JStr s) = Some (map show_nat [0..<length s])"
| "object_keys (JArr xs) = Some (map show_nat [0..<length xs])"
| "object_keys (JObj kvs) = Some (map fst kvs)"

definition keys_error :: js_error where
  "keys_error = JsError ''TypeError'' ''Cannot convert undefined or null to object''"

definition params_error :: js_error where
  "params_error = JsError ''TypeError'' ''Failed to construct URLSearchParams''"

text \<open>An element of a sequence handed to \<^verbatim>\<open>URLSearchParams\<close> must be an array of two.\<close>

fun name_value :: "jsval \<Rightarrow> (string \<times> jsval) option" where
  "name_value (JArr [a, b]) = Some (js_to_string a, b)"
| "name_value v = None"

text \<open>
  \<^verbatim>\<open>new URLSearchParams(v).toString()\<close>: a plain object gives its properties, an array
  must be a sequence of pairs (the constructor throws on any other element), and every
  other value is converted to a string and parsed as a query by the platform.
\<close>

definition search_params :: "env \<Rightarrow> jsval \<Rightarrow> js_error + string" where
  "search_params env v =
     (case v of
        JObj kvs \<Rightarrow> Inr (query_string env kvs)
      | JArr xs \<Rightarrow>
          (case those (map name_value xs) of
             None \<Rightarrow> Inl params_error
           | Some kvs \<Rightarrow> Inr (query_string env kvs))
      | JUndefined \<Rightarrow> Inr []
      | _ \<Rightarrow> Inr (e_parseQuery env (js_to_string v)))"

text \<open>A default of a destructuring pattern: it replaces undefined only.\<close>

definition or_default :: "jsval \<Rightarrow> jsval \<Rightarrow> jsval" where
  "or_default v d = (if v = JUndefined then d else v)"

text \<open>
  The URL of \<^verbatim>\<open>fetchFromAirNavX\<close>: endpoint and path, and when \<open>params\<close> has keys a
  question mark and its query string. \<open>Inl\<close> is the exception of \<^verbatim>\<open>Object.keys\<close> or of
  the \<^verbatim>\<open>URLSearchParams\<close> constructor.
\<close>

definition bg_url :: "env \<Rightarrow> string \<Rightarrow> nat \<Rightarrow> jsval \<Rightarrow> jsval \<Rightarrow> js_error + string" where
  "bg_url env host port endpoint params =
     (case object_keys params of
        None \<Rightarrow> Inl keys_error
      | Some ks \<Rightarrow>
          if length ks > 0 then
            (case search_params env params of
               Inl e \<Rightarrow> Inl e
             | Inr queryString \<Rightarrow>
                 Inr (base_url host port @ js_to_string endpoint @ ''?'' @ queryString))
          else Inr (base_url host port @ js_to_string endpoint))"

text \<open>
  The request of \<^verbatim>\<open>fetchFromAirNavX\<close>. Its method is the string of \<open>method\<close>, as handed
  to \<^verbatim>\<open>fetch\<close>; the body is attached when \<open>body\<close> is truthy and \<open>method\<close> is exactly
  \<^verbatim>\<open>'POST'\<close> or \<^verbatim>\<open>'PUT'\<close>.
\<close>

definition bg_request :: "string \<Rightarrow> jsval \<Rightarrow> jsval \<Rightarrow> request" where
  "bg_request url method body =
     \<lparr>rq_method = js_to_string method,
      rq_url = url,
      rq_headers = [(''Accept'', ''application/json'')],
      rq_body = (if truthy body \<and> (method = JStr ''POST'' \<or> method = JStr ''PUT'') then Some body else None)\<rparr>"

text \<open>
  \<^verbatim>\<open>fetchFromAirNavX(endpoint, {method, params, body, timeout})\<close>. The URL is built
  outside the \<^verbatim>\<open>try\<close>: an exception there ends the call before any request.
\<close>

definition fetchFromAirNavX ::
  "env \<Rightarrow> jsval \<Rightarrow> jsval \<Rightarrow> jsval \<Rightarrow> jsval \<Rightarrow> nat \<Rightarrow> bg_state \<times> world
     \<Rightarrow> (js_error + jsval) \<times> bg_state \<times> world" where
  "fetchFromAirNavX env endpoint method0 params0 body0 timeout sw =
     (let (airnavx, st, w) = bg_detectAirNavX env False sw
      in case airnavx of
           None \<Rightarrow>
             (Inl (JsError ''Error'' ''AirNavX not detected. Please ensure AirNavX is running.''), st, w)
         | Some (host, port) \<Rightarrow>
             (let method = or_default method0 (JStr ''GET'');
                  params = or_default params0 (JObj []);
                  body = or_default body0 JNull
              in case bg_url env host port endpoint params of
                   Inl e \<Rightarrow> (Inl e, st, w)
                 | Inr url \<Rightarrow>
                     (let (out, w') = fetch env (Some timeout) (bg_request url method body) w
                      in case out of
                           Inl e \<Rightarrow>
                             if err_name e = ''AbortError''
                             then (Inl (JsError ''Error'' ''Request timeout - AirNavX not responding''), st, w')
                             else (Inl e, st, w')
                         | Inr r \<Rightarrow>
                             if \<not> ok r
                             then (Inl (JsError ''Error''
                                     (''HTTP '' @ show_nat (rs_status r) @ '': '' @ rs_statusText r)), st, w')
                             else (case rs_json r of
                                     Inl m \<Rightarrow> (Inl (JsError ''SyntaxError'' m), st, w')
                                   | Inr data \<Rightarrow>
                                       (Inr (JObj [(''success'', JBool True), (''data'', data),
                                                   (''host'', JStr host), (''port'', JNum (int port))]),
                                        st, w')))))"

definition failure_reply :: "string \<Rightarrow> jsval" where
  "failure_reply msg = JObj [(''success'', JBool False), (''error'', JStr msg)]"

text \<open>
  The action handlers. Each returns what it passes to \<^verbatim>\<open>sendResponse\<close>: the channel of
  the request is the correlation, the reply itself carries no id.
\<close>

definition reply_of :: "(js_error + jsval) \<times> bg_state \<times> world \<Rightarrow> jsval \<times> bg_state \<times> world" where
  "reply_of r =
     (case r of
        (Inr result, sw) \<Rightarrow> (result, sw)
      | (Inl e, sw) \<Rightarrow> (failure_reply (err_message e), sw))"

definition handleDetect :: "env \<Rightarrow> jsval \<Rightarrow> bg_state \<times> world \<Rightarrow> jsval \<times> bg_state \<times> world" where
  "handleDetect env request sw =
     (case bg_detectAirNavX env (truthy (js_or (js_get request ''forceRefresh'') (JBool False))) sw of
        (Some (host, port), sw') \<Rightarrow>
          (JObj [(''success'', JBool True), (''host'', JStr host), (''port'', JNum (int port)),
                 (''message'', JStr (''AirNavX detected at '' @ host @ '':'' @ show_nat port))], sw')
      | (None, sw') \<Rightarrow>
          (JObj [(''success'', JBool False),
                 (''error'', JStr ''AirNavX not found. Please ensure it is running.''),
                 (''searched_ports'', JArr (map (\<lambda>p. JNum (int p)) AIRNAVX_CANDIDATE_PORTS))], sw'))"

definition handleSearch :: "env \<Rightarrow> jsval \<Rightarrow> bg_state \<times> world \<Rightarrow> jsval \<times> bg_state \<times> world" where
  "handleSearch env request sw =
     (let query = js_get request ''query'';
          page = (if js_get request ''page'' = JUndefined then JNum 1 else js_get request ''page'')
      in if \<not> truthy query then (failure_reply ''Query parameter required'', sw)
         else reply_of
           (fetchFromAirNavX env (JStr ''/airnavx/api/viewer/search'') (JStr ''GET'')
              (JObj [(''q'', query), (''page'', page), (''aggregationList'', aggregationList),
                     (''queryWithAggregation'', JStr ''false'')])
              JNull 30000 sw))"

definition handleFetchContent :: "env \<Rightarrow> jsval \<Rightarrow> bg_state \<times> world \<Rightarrow> jsval \<times> bg_state \<times> world" where
  "handleFetchContent env request sw =
     (let dataModuleId = js_get request ''dataModuleId''
      in if \<not> truthy dataModuleId then (failure_reply ''dataModuleId required'', sw)
         else reply_of
           (fetchFromAirNavX env (JStr ''/airnavx/api/dataModule/content'') (JStr ''POST'')
              (JObj [(''dataModuleId'', dataModuleId), (''forHatch'', JStr ''false''),
                     (''forPrint'', JStr ''false'')])
              (JObj []) 30000 sw))"

definition handleCustomFetch :: "env \<Rightarrow> jsval \<Rightarrow> bg_state \<times> world \<Rightarrow> jsval \<times> bg_state \<times> world" where
  "handleCustomFetch env request sw =
     (let endpoint = js_get request ''endpoint''; method = js_get request ''method'';
          params = js_get request ''params''; body = js_get request ''body''
      in if \<not> truthy endpoint then (failure_reply ''endpoint required'', sw)
         else reply_of
           (fetchFromAirNavX env endpoint (js_or method (JStr ''GET'')) (js_or params (JObj []))
              (js_or body JNull) 30000 sw))"

definition handleGetStatus :: "jsval \<Rightarrow> bg_state \<times> world \<Rightarrow> jsval \<times> bg_state \<times> world" where
  "handleGetStatus request sw =
     (let (st, w) = sw
      in (JObj [(''success'', JBool True),
                (''status'',
                   JObj [(''detected'', JBool (detectedAirNavX st \<noteq> None)),
                         (''host'', case detectedAirNavX st of
                                      None \<Rightarrow> JNull
                                    | Some (host, port) \<Rightarrow> js_or (JStr host) JNull),
                         (''port'', case detectedAirNavX st of
                                      None \<Rightarrow> JNull
                                    | Some (host, port) \<Rightarrow> js_or (JNum (int port)) JNull),
                         (''lastCheck'', case lastDetectionTime st of None \<Rightarrow> JNull | Some t \<Rightarrow> JNum t),
                         (''cacheExpiry'',
                            case lastDetectionTime st of
                              None \<Rightarrow> JNull
                            | Some t \<Rightarrow> if t \<noteq> 0 then JNum (t + bg_CACHE_DURATION) else JNull)])],
          sw))"

text \<open>
  The \<^verbatim>\<open>chrome.runtime.onMessage\<close> listener: the replies sent, the value it returns
  (whether the channel stays open) and the new state. \<open>Inl\<close> is the exception of
  reading \<^verbatim>\<open>request.action\<close> on null or undefined.
\<close>

definition bg_on_message ::
  "env \<Rightarrow> jsval \<Rightarrow> bg_state \<times> world \<Rightarrow> js_error + (jsval list \<times> bool \<times> bg_state \<times> world)" where
  "bg_on_message env request sw =
     (if request = JNull \<or> request = JUndefined
      then Inl (JsError ''TypeError'' ''Cannot read properties of null'')
      else
        (let action = js_get request ''action''
         in if action = JStr ''detect'' then
              (case handleDetect env request sw of (reply, sw') \<Rightarrow> Inr ([reply], True, sw'))
            else if action = JStr ''search'' then
              (case handleSearch env request sw of (reply, sw') \<Rightarrow> Inr ([reply], True, sw'))
            else if action = JStr ''fetchContent'' then
              (case handleFetchContent env request sw of (reply, sw') \<Rightarrow> Inr ([reply], True, sw'))
            else if action = JStr ''customFetch'' then
              (case handleCustomFetch env request sw of (reply, sw') \<Rightarrow> Inr ([reply], True, sw'))
            else if action = JStr ''getStatus'' then
              (case handleGetStatus request sw of (reply, sw') \<Rightarrow> Inr ([reply], True, sw'))
            else Inr ([failure_reply ''Unknown action''], False, sw)))"

section \<open>The earlier content script\<close>


record legacy_attempt =
  la_url :: string
  la_method :: string
  la_body :: jsval

definition legacy_attempts :: "env \<Rightarrow> string \<Rightarrow> nat \<Rightarrow> jsval \<Rightarrow> legacy_attempt list" where
  "legacy_attempts env host port dataModuleId =
     (let b = base_url host port; i = e_encodeURIComponent env (js_to_string dataModuleId)
      in [\<lparr>la_url = b @ ''/airnavx/api/dataModule/content'',
           la_method = ''POST'',
           la_body = JObj [(''dataModuleId'', dataModuleId), (''forHatch'', JBool False),
                           (''forPrint'', JBool False)]\<rparr>,
          \<lparr>la_url = b @ ''/airnavx/api/dataModule/content?dataModuleId='' @ i
                      @ ''&forHatch=false&forPrint=false'',
           la_method = ''POST'', la_body = JObj []\<rparr>,
          \<lparr>la_url = b @ ''/airnavx/api/dataModule/content?dataModuleId='' @ i,
           la_method = ''GET'', la_body = JNull\<rparr>])"

definition legacy_attempt_request :: "legacy_attempt \<Rightarrow> request" where
  "legacy_attempt_request a =
     (if la_method a = ''POST'' \<and> truthy (la_body a) \<and>
         (case object_keys (la_body a) of None \<Rightarrow> False | Some ks \<Rightarrow> length ks > 0)
      then \<lparr>rq_method = la_method a, rq_url = la_url a,
            rq_headers = [(''Accept'', ''application/json''), (''Content-Type'', ''application/json'')],
            rq_body = Some (la_body a)\<rparr>
      else \<lparr>rq_method = la_method a, rq_url = la_url a,
            rq_headers = [(''Accept'', ''application/json'')], rq_body = None\<rparr>)"




section \<open>Notions used to state the properties\<close>

text \<open>
  What a first-success sweep over the candidates \<open>cs\<close> looks like from outside, when
  \<open>tr\<close> was issued before it: it issued the probes of the first \<open>k\<close> candidates, in
  order and nothing else; of these exactly the last one was answered with 2xx, and it is
  the result; or none was, and then all candidates were probed and the result is \<open>None\<close>.
\<close>

definition sweep_outcome ::
  "env \<Rightarrow> nat option \<Rightarrow> (string \<times> nat) list \<Rightarrow> request list \<Rightarrow> (string \<times> nat) option
     \<Rightarrow> request list \<Rightarrow> bool" where
  "sweep_outcome env tmo cs tr r tr' =
     (\<exists>k\<le>length cs.
        tr' = tr @ map probe_of (take k cs) \<and>
        (\<forall>i<k. probe_ok env tmo (tr @ map probe_of (take i cs)) (cs ! i) = (r \<noteq> None \<and> Suc i = k)) \<and>
        (case r of None \<Rightarrow> k = length cs | Some c \<Rightarrow> 0 < k \<and> c = cs ! (k - 1)))"

definition relay_candidates :: "(string \<times> nat) list" where
  "relay_candidates = List.product relay_hostsToTest relay_candidatePorts"

definition bg_candidates :: "(string \<times> nat) list" where
  "bg_candidates = List.product AIRNAVX_HOSTS AIRNAVX_CANDIDATE_PORTS"

text \<open>
  A reply for the call \<open>rid\<close> as the client's listener sees it: from the window, tagged
  as a response, with the number \<open>rid\<close> as its \<^verbatim>\<open>requestId\<close>; and how such a reply
  settles the call.
\<close>

definition is_reply_for :: "int \<Rightarrow> message_event \<Rightarrow> bool" where
  "is_reply_for rid ev =
     (ev_from_window ev \<and> ev_data ev \<noteq> JNull \<and> ev_data ev \<noteq> JUndefined \<and>
      js_get (ev_data ev) ''type'' = JStr (MESSAGE_PREFIX @ ''RESPONSE'') \<and>
      js_get (ev_data ev) ''requestId'' = JNum rid)"

definition reply_settlement :: "message_event \<Rightarrow> settlement" where
  "reply_settlement ev =
     (if truthy (js_get (ev_data ev) ''error'')
      then Rejected (js_to_string (js_get (ev_data ev) ''error''))
      else Resolved (js_get (ev_data ev) ''result''))"

text \<open>
  The call \<open>rid\<close> has been issued and is outstanding, or it is over with settlement
  \<open>s\<close>.
\<close>

definition waiting :: "int \<Rightarrow> client_state \<Rightarrow> bool" where
  "waiting rid c = (rid \<le> requestCounter c \<and> rid \<in> pendingRequests c \<and> settled c rid = None)"

definition finished :: "int \<Rightarrow> settlement \<Rightarrow> client_state \<Rightarrow> bool" where
  "finished rid s c = (rid \<le> requestCounter c \<and> rid \<notin> pendingRequests c \<and> settled c rid = Some s)"

text \<open>
  Events that end the call \<open>rid\<close> whose timer is due at \<open>deadline\<close>: a reply for it, and
  the event loop reaching the deadline. A sequence of events is quiet when it has
  neither.
\<close>

fun is_reply_event :: "int \<Rightarrow> client_event \<Rightarrow> bool" where
  "is_reply_event rid (Message ev) = is_reply_for rid ev"
| "is_reply_event rid e = False"

fun is_due :: "int \<Rightarrow> client_event \<Rightarrow> bool" where
  "is_due deadline (Tick now) = (deadline \<le> now)"
| "is_due deadline e = False"

definition quiet :: "int \<Rightarrow> int \<Rightarrow> client_event list \<Rightarrow> bool" where
  "quiet rid deadline es = list_all (\<lambda>e. \<not> is_reply_event rid e \<and> \<not> is_due deadline e) es"

text \<open>The call \<open>rid\<close> is outstanding and its one timer is set to \<open>deadline\<close>.\<close>

definition outstanding :: "int \<Rightarrow> int \<Rightarrow> client_state \<Rightarrow> bool" where
  "outstanding rid deadline c =
     (waiting rid c \<and> (deadline, rid) \<in> set (timers c) \<and>
      (\<forall>(d, i)\<in>set (timers c). i = rid \<longrightarrow> d = deadline))"

text \<open>
  An invariant of the client: ids above the counter are unused, and a pending call is
  not settled.
\<close>

definition client_wf :: "client_state \<Rightarrow> bool" where
  "client_wf c =
     ((\<forall>i. requestCounter c < i \<longrightarrow> i \<notin> pendingRequests c \<and> settled c i = None) \<and>
      (\<forall>(d, i)\<in>set (timers c). i \<le> requestCounter c) \<and>
      (\<forall>i\<in>pendingRequests c. settled c i = None))"

text \<open>The states of the client: it starts in \<open>client_init\<close>, and events happen to it.\<close>

inductive reachable :: "client_state \<Rightarrow> bool" where
  init: "reachable client_init"
| step: "reachable c \<Longrightarrow> reachable (client_step e c)"

subsection \<open>Concrete environments\<close>

definition refused :: "fetch_outcome \<times> nat" where
  "refused = (Inl (JsError ''TypeError'' ''Failed to fetch''), 3)"


definition http_json :: "jsval \<Rightarrow> fetch_outcome \<times> nat" where
  "http_json v =
     (Inr \<lparr>rs_status = 200, rs_statusText = ''OK'', rs_contentType = Some ''application/json'',
           rs_text = ''(json)'', rs_json = Inr v\<rparr>, 20)"

text \<open>A network on which only \<open>host:port\<close> listens; it answers every request with 200 and a JSON body.\<close>

definition net_only :: "string \<Rightarrow> nat \<Rightarrow> request list \<Rightarrow> request \<Rightarrow> fetch_outcome \<times> nat" where
  "net_only host port tr rq =
     (if starts_with (rq_url rq) (base_url host port @ ''/'') then http_json (JObj [(''results'', JArr [])])
      else refused)"

text \<open>A network that answers the \<open>i\<close>-th request issued with the \<open>i\<close>-th entry of a script.\<close>

definition net_script :: "(fetch_outcome \<times> nat) list \<Rightarrow> request list \<Rightarrow> request \<Rightarrow> fetch_outcome \<times> nat" where
  "net_script script tr rq = (if length tr < length script then script ! length tr else refused)"

definition test_env :: "(request list \<Rightarrow> request \<Rightarrow> fetch_outcome \<times> nat) \<Rightarrow> env" where
  "test_env n =
     \<lparr>e_net = n, e_encodeURIComponent = (\<lambda>s. s), e_formEncode = (\<lambda>s. s), e_toISOString = show_int,
      e_parseQuery = (\<lambda>s. s @ ''='')\<rparr>"

definition world0 :: world where
  "world0 = \<lparr>w_trace = [], w_clock = 1000\<rparr>"

text \<open>
  A world with a clock of the present day (milliseconds since 1970), and the same state
  and world some milliseconds later.
\<close>

definition world_now :: world where
  "world_now = \<lparr>w_trace = [], w_clock = 1762000000000\<rparr>"

definition later :: "int \<Rightarrow> 's \<times> world \<Rightarrow> 's \<times> world" where
  "later ms sw = (fst sw, (snd sw)\<lparr>w_clock := w_clock (snd sw) + ms\<rparr>)"





text \<open>The same call with no method name, and request envelopes with an empty and an unknown one.\<close>

definition demo_call_no_method :: "int \<times> client_state" where
  "demo_call_no_method = sendMessage JUndefined (JObj []) 1000 client_init"

definition demo_no_method_event :: message_event where
  "demo_no_method_event =
     \<lparr>ev_from_window = True,
      ev_data = JObj [(''type'', JStr ''AIRNAVX_BRIDGE_REQUEST''), (''method'', JStr []),
                      (''params'', JObj []), (''requestId'', JNum 7)]\<rparr>"

definition demo_unknown_method_event :: message_event where
  "demo_unknown_method_event =
     \<lparr>ev_from_window = True,
      ev_data = JObj [(''type'', JStr ''AIRNAVX_BRIDGE_REQUEST''), (''method'', JStr ''getStatus''),
                      (''params'', JObj []), (''requestId'', JNum 7)]\<rparr>"



definition get_request :: "string \<Rightarrow> request" where
  "get_request url =
     \<lparr>rq_method = ''GET'', rq_url = url, rq_headers = [(''Accept'', ''application/json'')],
      rq_body = None\<rparr>"


text \<open>A coordinator that has found 127.0.0.1:59720 at time 1000.\<close>

definition bg_found :: bg_state where
  "bg_found =
     \<lparr>detectedAirNavX = Some (''127.0.0.1'', 59720), lastDetectionTime = Some 1000,
      bg_storage = Some (''127.0.0.1'', 59720, 1000), bg_badge = Some (check_mark, ''#10B981'')\<rparr>"



text \<open>A relay that has found 127.0.0.1:59720 at time 1000.\<close>

definition relay_found :: relay_state where
  "relay_found =
     \<lparr>airnavxCache = Some (Detected ''127.0.0.1'' 59720 ''AirNavX detected at 127.0.0.1:59720''),
      airnavxCacheTimestamp = 1000\<rparr>"



section \<open>Properties of the discovery sweep\<close>

lemma fetch_trace: "w_trace (snd (fetch env tmo rq w)) = w_trace w @ [rq]"
  by (simp add: fetch_def Let_def split: prod.splits option.splits)

lemma fetch_outcome_clock:
  "fst (fetch env tmo rq w) = fst (fetch env tmo rq \<lparr>w_trace = w_trace w, w_clock = c\<rparr>)"
  by (simp add: fetch_def Let_def split: prod.splits option.splits)

lemma sweep_flat_ports:
  "sweep_flat env tmo (map (Pair host) ports) w =
     (case sweep_ports env tmo host ports w of (r, w') \<Rightarrow> (map_option (Pair host) r, w'))"
  by (induction ports arbitrary: w) (simp_all add: Let_def split: prod.splits)

lemma sweep_flat_append:
  "sweep_flat env tmo (xs @ ys) w =
     (case sweep_flat env tmo xs w of
        (Some c, w') \<Rightarrow> (Some c, w')
      | (None, w') \<Rightarrow> sweep_flat env tmo ys w')"
  by (induction xs arbitrary: w) (auto simp: Let_def split: prod.splits)

text \<open>The double loop visits the candidates host by host, the ports of each in list order.\<close>

lemma sweep_hosts_flat:
  "sweep_hosts env tmo hosts ports w = sweep_flat env tmo (List.product hosts ports) w"
  by (induction hosts arbitrary: w)
     (auto simp: sweep_flat_append sweep_flat_ports split: prod.splits option.splits)

lemma sweep_flat_outcome:
  "sweep_flat env tmo cs w = (r, w') \<Longrightarrow> sweep_outcome env tmo cs (w_trace w) r (w_trace w')"
proof (induction cs arbitrary: w)
  case Nil
  then show ?case by (simp add: sweep_outcome_def)
next
  case (Cons c cs)
  obtain host port where c: "c = (host, port)" by (cases c)
  obtain out w1 where f: "fetch env tmo (probe_request host port) w = (out, w1)"
    by (cases "fetch env tmo (probe_request host port) w")
  have tr1: "w_trace w1 = w_trace w @ [probe_of c]"
    using fetch_trace [of env tmo "probe_request host port" w] f c by (simp add: probe_of_def)
  have ok0: "probe_ok env tmo (w_trace w) c = response_ok out"
    using fetch_outcome_clock [of env tmo "probe_request host port" w 0] f c
    by (simp add: probe_ok_def probe_of_def)
  show ?case
  proof (cases "response_ok out")
    case True
    with Cons.prems c f have "r = Some c" "w' = w1" by simp_all
    with tr1 ok0 True show ?thesis
      unfolding sweep_outcome_def by (intro exI [of _ 1]) simp
  next
    case False
    with Cons.prems c f have "sweep_flat env tmo cs w1 = (r, w')" by simp
    from Cons.IH [OF this] obtain k where k: "k \<le> length cs"
      "w_trace w' = w_trace w1 @ map probe_of (take k cs)"
      "\<forall>i<k. probe_ok env tmo (w_trace w1 @ map probe_of (take i cs)) (cs ! i) = (r \<noteq> None \<and> Suc i = k)"
      "case r of None \<Rightarrow> k = length cs | Some c \<Rightarrow> 0 < k \<and> c = cs ! (k - 1)"
      unfolding sweep_outcome_def by blast
    have "\<forall>i<Suc k. probe_ok env tmo (w_trace w @ map probe_of (take i (c # cs))) ((c # cs) ! i)
            = (r \<noteq> None \<and> Suc i = Suc k)"
    proof (intro allI impI)
      fix i assume "i < Suc k"
      show "probe_ok env tmo (w_trace w @ map probe_of (take i (c # cs))) ((c # cs) ! i)
            = (r \<noteq> None \<and> Suc i = Suc k)"
      proof (cases i)
        case 0
        with ok0 False k(4) show ?thesis by (auto split: option.splits)
      next
        case (Suc j)
        with \<open>i < Suc k\<close> k(3) tr1 show ?thesis by simp
      qed
    qed
    moreover have "case r of None \<Rightarrow> Suc k = length (c # cs)
                   | Some d \<Rightarrow> 0 < Suc k \<and> d = (c # cs) ! (Suc k - 1)"
      using k(4) by (cases k) (auto split: option.splits)
    ultimately show ?thesis
      unfolding sweep_outcome_def using k(1,2) tr1 by (intro exI [of _ "Suc k"]) simp
  qed
qed

lemma sweep_hosts_outcome:
  "sweep_hosts env tmo hosts ports w = (r, w') \<Longrightarrow>
   sweep_outcome env tmo (List.product hosts ports) (w_trace w) r (w_trace w')"
  by (simp add: sweep_hosts_flat sweep_flat_outcome)

lemma relay_detect_miss:
  "\<not> (airnavxCache st \<noteq> None \<and> w_clock w - airnavxCacheTimestamp st < relay_CACHE_DURATION) \<Longrightarrow>
   relay_detectAirNavX env d (st, w) =
     (case sweep_hosts env (Some 2000) relay_hostsToTest relay_candidatePorts w of
        (found, w') \<Rightarrow>
          (detection_of found,
           \<lparr>airnavxCache = Some (detection_of found), airnavxCacheTimestamp = w_clock w'\<rparr>, w'))"
  by (auto simp: relay_detectAirNavX_def Let_def split: prod.splits)

lemma bg_detect_miss:
  "f \<or> \<not> bg_cache_valid st (w_clock w) \<Longrightarrow>
   fst (bg_detectAirNavX env f (st, w)) =
     fst (sweep_hosts env (Some DETECTION_TIMEOUT) AIRNAVX_HOSTS AIRNAVX_CANDIDATE_PORTS w) \<and>
   snd (snd (bg_detectAirNavX env f (st, w))) =
     snd (sweep_hosts env (Some DETECTION_TIMEOUT) AIRNAVX_HOSTS AIRNAVX_CANDIDATE_PORTS w)"
  by (auto simp: bg_detectAirNavX_def Let_def split: prod.splits option.splits)

lemmas sweep_eval =
  Let_def fetch_def probe_request_def probe_of_def base_url_def show_nat.simps digit_char_def
  net_only_def net_script_def test_env_def world0_def response_ok_def ok_def http_json_def
  refused_def detection_of_def
  relay_hostsToTest_def relay_candidatePorts_def AIRNAVX_HOSTS_def AIRNAVX_CANDIDATE_PORTS_def
  DETECTION_TIMEOUT_def relay_CACHE_DURATION_def bg_CACHE_DURATION_def bg_cache_valid_def
  relay_init_def bg_init_def

text \<open>
  Claim C8. Whenever a discovery sweep runs (the relay's on a cache miss, the
  coordinator's on a forced refresh or a cache miss), it probes the candidates in the
  fixed order, host by host and port by port; the first pair answered with a 2xx
  status is the result and nothing is probed after it; and when no pair is answered so,
  all pairs were probed and the function returns its not-found value (the relay the
  object with \<^verbatim>\<open>success: false\<close>, the coordinator \<^verbatim>\<open>null\<close>). A probe that throws or
  times out is one that was not answered with 2xx: no exception leaves the sweep.
\<close>

theorem C8_first_success_ends_sweep:
  "(\<not> (airnavxCache st \<noteq> None \<and> w_clock w - airnavxCacheTimestamp st < relay_CACHE_DURATION) \<longrightarrow>
      (\<exists>r. fst (relay_detectAirNavX env d (st, w)) = detection_of r \<and>
           sweep_outcome env (Some 2000) relay_candidates (w_trace w) r
             (w_trace (snd (snd (relay_detectAirNavX env d (st, w))))))) \<and>
   (f \<or> \<not> bg_cache_valid bst (w_clock w) \<longrightarrow>
      sweep_outcome env (Some DETECTION_TIMEOUT) bg_candidates (w_trace w)
        (fst (bg_detectAirNavX env f (bst, w)))
        (w_trace (snd (snd (bg_detectAirNavX env f (bst, w))))))"
proof (intro conjI impI)
  assume miss: "\<not> (airnavxCache st \<noteq> None \<and> w_clock w - airnavxCacheTimestamp st < relay_CACHE_DURATION)"
  obtain r w' where s: "sweep_hosts env (Some 2000) relay_hostsToTest relay_candidatePorts w = (r, w')"
    by (cases "sweep_hosts env (Some 2000) relay_hostsToTest relay_candidatePorts w")
  from sweep_hosts_outcome [OF s]
  have "sweep_outcome env (Some 2000) relay_candidates (w_trace w) r (w_trace w')"
    by (simp add: relay_candidates_def)
  with s show "\<exists>r. fst (relay_detectAirNavX env d (st, w)) = detection_of r \<and>
           sweep_outcome env (Some 2000) relay_candidates (w_trace w) r
             (w_trace (snd (snd (relay_detectAirNavX env d (st, w)))))"
    by (intro exI [of _ r]) (simp add: relay_detect_miss [OF miss])
next
  assume miss: "f \<or> \<not> bg_cache_valid bst (w_clock w)"
  obtain r w' where s:
    "sweep_hosts env (Some DETECTION_TIMEOUT) AIRNAVX_HOSTS AIRNAVX_CANDIDATE_PORTS w = (r, w')"
    by (cases "sweep_hosts env (Some DETECTION_TIMEOUT) AIRNAVX_HOSTS AIRNAVX_CANDIDATE_PORTS w")
  from sweep_hosts_outcome [OF s]
  have "sweep_outcome env (Some DETECTION_TIMEOUT) bg_candidates (w_trace w) r (w_trace w')"
    by (simp add: bg_candidates_def)
  with s bg_detect_miss [OF miss, of env]
  show "sweep_outcome env (Some DETECTION_TIMEOUT) bg_candidates (w_trace w)
        (fst (bg_detectAirNavX env f (bst, w)))
        (w_trace (snd (snd (bg_detectAirNavX env f (bst, w)))))"
    by simp
qed

text \<open>
  The scenario of the specification: 127.0.0.1:59720 refuses, 127.0.0.1:51798 answers.
  Both sweeps stop after two probes.
\<close>

theorem C8_witness:
  "(\<exists>r. Detected ''127.0.0.1'' 51798 ''AirNavX detected at 127.0.0.1:51798'' = detection_of r \<and>
        sweep_outcome (test_env (net_only ''127.0.0.1'' 51798)) (Some 2000) relay_candidates [] r
          [probe_request ''127.0.0.1'' 59720, probe_request ''127.0.0.1'' 51798]) \<and>
   sweep_outcome (test_env (net_only ''127.0.0.1'' 51798)) (Some DETECTION_TIMEOUT) bg_candidates []
     (Some (''127.0.0.1'', 51798))
     [probe_request ''127.0.0.1'' 59720, probe_request ''127.0.0.1'' 51798]"
proof -
  let ?E = "test_env (net_only ''127.0.0.1'' 51798)"
  have r1: "fst (relay_detectAirNavX ?E JUndefined (relay_init, world0))
            = Detected ''127.0.0.1'' 51798 ''AirNavX detected at 127.0.0.1:51798''"
    by (simp add: relay_detectAirNavX_def sweep_eval)
  have r2: "w_trace (snd (snd (relay_detectAirNavX ?E JUndefined (relay_init, world0))))
            = [probe_request ''127.0.0.1'' 59720, probe_request ''127.0.0.1'' 51798]"
    by (simp add: relay_detectAirNavX_def sweep_eval)
  have b1: "fst (bg_detectAirNavX ?E True (bg_init, world0)) = Some (''127.0.0.1'', 51798)"
    by (simp add: bg_detectAirNavX_def sweep_eval)
  have b2: "w_trace (snd (snd (bg_detectAirNavX ?E True (bg_init, world0))))
            = [probe_request ''127.0.0.1'' 59720, probe_request ''127.0.0.1'' 51798]"
    by (simp add: bg_detectAirNavX_def sweep_eval)
  have h: "\<not> (airnavxCache relay_init \<noteq> None \<and>
              w_clock world0 - airnavxCacheTimestamp relay_init < relay_CACHE_DURATION)"
    by (simp add: relay_init_def)
  have w0: "w_trace world0 = []" by (simp add: world0_def)
  note T = C8_first_success_ends_sweep [of relay_init world0 ?E JUndefined True bg_init,
      unfolded r1 r2 b1 b2 w0]
  from T h show ?thesis by blast
qed

section \<open>Properties of the client and of the two listeners\<close>

lemma settle_fields [simp]:
  "pendingRequests (settle j s c) = pendingRequests c"
  "timers (settle j s c) = timers c"
  "requestCounter (settle j s c) = requestCounter c"
  "posted (settle j s c) = posted c"
  "warnings (settle j s c) = warnings c"
  by (simp_all add: settle_def)

lemma settle_settled:
  "settled (settle j s c) i = (if i = j \<and> settled c j = None then Some s else settled c i)"
  by (simp add: settle_def)

text \<open>The four ways a run of the client's listener can end.\<close>

lemma on_message_cases:
  "client_on_message ev c = Inl destructure_error \<or>
   client_on_message ev c = Inr c \<or>
   (\<exists>n. is_reply_for n ev \<and> n \<in> pendingRequests c \<and>
        client_on_message ev c =
          Inr ((settle n (reply_settlement ev) c)\<lparr>pendingRequests := pendingRequests c - {n}\<rparr>)) \<or>
   (\<exists>v. js_get (ev_data ev) ''requestId'' = v \<and> (\<forall>n\<in>pendingRequests c. v \<noteq> JNum n) \<and>
        client_on_message ev c = Inr (c\<lparr>warnings := warnings c @ [v]\<rparr>))"
  by (auto simp: client_on_message_def Let_def is_reply_for_def reply_settlement_def split: jsval.splits)

lemma message_step_cases:
  "client_step (Message ev) c = c \<or>
   (\<exists>n. is_reply_for n ev \<and> n \<in> pendingRequests c \<and>
        client_step (Message ev) c =
          (settle n (reply_settlement ev) c)\<lparr>pendingRequests := pendingRequests c - {n}\<rparr>) \<or>
   (\<exists>v. client_step (Message ev) c = c\<lparr>warnings := warnings c @ [v]\<rparr>)"
  using on_message_cases [of ev c] by (auto simp: client_step.simps(1))


lemma message_outstanding:
  assumes "outstanding rid D c" "\<not> is_reply_for rid ev"
  shows "outstanding rid D (client_step (Message ev) c)"
proof -
  have "\<forall>n. is_reply_for n ev \<longrightarrow> n \<noteq> rid" using assms(2) by auto
  with message_step_cases [of ev c] assms(1) show ?thesis
    by (auto simp: outstanding_def waiting_def settle_settled)
qed

lemma message_reply:
  assumes "waiting rid c" "is_reply_for rid ev"
  shows "finished rid (reply_settlement ev) (client_step (Message ev) c)"
  using assms
  by (auto simp: client_step.simps(1) client_on_message_def Let_def is_reply_for_def
        reply_settlement_def waiting_def finished_def settle_def)

lemma message_finished:
  assumes "finished rid s c"
  shows "finished rid s (client_step (Message ev) c)"
proof -
  have "\<forall>n. n \<in> pendingRequests c \<longrightarrow> n \<noteq> rid" using assms by (auto simp: finished_def)
  with message_step_cases [of ev c] assms show ?thesis
    by (auto simp: finished_def settle_settled)
qed

lemma timeout_waiting: "waiting rid c \<Longrightarrow> i \<noteq> rid \<Longrightarrow> waiting rid (client_on_timeout i c)"
  by (auto simp: client_on_timeout_def waiting_def settle_def)

lemma timeout_fires:
  "waiting rid c \<Longrightarrow> finished rid (Rejected ''Request timeout'') (client_on_timeout rid c)"
  by (auto simp: client_on_timeout_def waiting_def finished_def settle_def)

lemma timeout_finished: "finished rid s c \<Longrightarrow> finished rid s (client_on_timeout i c)"
  by (auto simp: client_on_timeout_def finished_def settle_def)

lemma fold_finished: "finished rid s c \<Longrightarrow> finished rid s (fold (timer_step now) ts c)"
  by (induction ts arbitrary: c) (auto simp: timer_step_def timeout_finished)

lemma fold_waiting:
  "waiting rid c \<Longrightarrow> \<forall>(d, i)\<in>set ts. i = rid \<longrightarrow> now < d \<Longrightarrow> waiting rid (fold (timer_step now) ts c)"
  by (induction ts arbitrary: c) (auto simp: timer_step_def timeout_waiting)

lemma fold_due:
  "waiting rid c \<Longrightarrow> (d, rid) \<in> set ts \<Longrightarrow> d \<le> now \<Longrightarrow>
   finished rid (Rejected ''Request timeout'') (fold (timer_step now) ts c)"
proof (induction ts arbitrary: c)
  case Nil
  then show ?case by simp
next
  case (Cons t ts)
  obtain d' i where t: "t = (d', i)" by (cases t)
  show ?case
  proof (cases "i = rid \<and> d' \<le> now")
    case True
    with t Cons.prems(1) have "finished rid (Rejected ''Request timeout'') (timer_step now t c)"
      by (simp add: timer_step_def timeout_fires)
    then show ?thesis by (simp add: fold_finished)
  next
    case False
    with t Cons.prems(1) have w: "waiting rid (timer_step now t c)"
      by (auto simp: timer_step_def timeout_waiting)
    from False t Cons.prems(2,3) have "(d, rid) \<in> set ts" by auto
    from Cons.IH [OF w this Cons.prems(3)] show ?thesis by simp
  qed
qed

lemma tick_finished: "finished rid s c \<Longrightarrow> finished rid s (run_timers now c)"
  using fold_finished [of rid s c now "timers c"] by (simp add: run_timers_def finished_def)

lemma tick_outstanding:
  assumes "outstanding rid D c" "now < D"
  shows "outstanding rid D (run_timers now c)"
proof -
  from assms have "\<forall>(d, i)\<in>set (timers c). i = rid \<longrightarrow> now < d"
    by (auto simp: outstanding_def)
  with assms(1) have "waiting rid (fold (timer_step now) (timers c) c)"
    by (intro fold_waiting) (simp add: outstanding_def)
  with assms show ?thesis
    by (auto simp: outstanding_def run_timers_def waiting_def)
qed

lemma tick_due:
  assumes "outstanding rid D c" "D \<le> now"
  shows "finished rid (Rejected ''Request timeout'') (run_timers now c)"
proof -
  from assms have "finished rid (Rejected ''Request timeout'') (fold (timer_step now) (timers c) c)"
    by (intro fold_due [where d = D]) (simp_all add: outstanding_def)
  then show ?thesis by (simp add: run_timers_def finished_def)
qed

lemma call_outstanding:
  "outstanding rid D c \<Longrightarrow> outstanding rid D (snd (sendMessage m p now c))"
  by (auto simp: outstanding_def waiting_def sendMessage_def Let_def)

lemma call_finished: "finished rid s c \<Longrightarrow> finished rid s (snd (sendMessage m p now c))"
  by (auto simp: finished_def sendMessage_def Let_def)

lemma step_finished: "finished rid s c \<Longrightarrow> finished rid s (client_step e c)"
  by (cases e) (simp_all add: message_finished tick_finished call_finished)

lemma step_outstanding:
  "outstanding rid D c \<Longrightarrow> \<not> is_reply_event rid e \<Longrightarrow> \<not> is_due D e \<Longrightarrow>
   outstanding rid D (client_step e c)"
  by (cases e) (simp_all add: message_outstanding tick_outstanding call_outstanding)

lemma run_finished: "finished rid s c \<Longrightarrow> finished rid s (client_run es c)"
  unfolding client_run_def by (induction es arbitrary: c) (simp_all add: step_finished)

lemma run_outstanding:
  "outstanding rid D c \<Longrightarrow> quiet rid D es \<Longrightarrow> outstanding rid D (client_run es c)"
  unfolding client_run_def quiet_def
  by (induction es arbitrary: c) (simp_all add: step_outstanding)

lemma run_append: "client_run (xs @ ys) c = client_run ys (client_run xs c)"
  by (simp add: client_run_def)

lemma run_Cons: "client_run (e # es) c = client_run es (client_step e c)"
  by (simp add: client_run_def)

lemma wf_timer_ids: "client_wf c \<Longrightarrow> (d, i) \<in> set (timers c) \<Longrightarrow> i \<le> requestCounter c"
  by (auto simp: client_wf_def)

text \<open>What a call leaves behind: its id is the next number, pending, with one timer.\<close>

lemma sendMessage_call:
  assumes "client_wf c" "sendMessage m p now c = (rid, c1)"
  shows "rid = requestCounter c + 1"
    and "outstanding rid (now + TIMEOUT_MS) c1"
    and "posted c1 = posted c @ [JObj [(''type'', JStr (MESSAGE_PREFIX @ ''REQUEST'')), (''method'', m),
                     (''params'', p), (''requestId'', JNum rid)]]"
proof -
  from assms(2) have rid: "rid = requestCounter c + 1"
    and c1: "c1 = c\<lparr>requestCounter := rid, pendingRequests := insert rid (pendingRequests c),
            posted := posted c @
              [JObj [(''type'', JStr (MESSAGE_PREFIX @ ''REQUEST'')), (''method'', m),
                     (''params'', p), (''requestId'', JNum rid)]],
            timers := timers c @ [(now + TIMEOUT_MS, rid)]\<rparr>"
    by (auto simp: sendMessage_def Let_def)
  show "rid = requestCounter c + 1" by (fact rid)
  from assms(1) rid have "settled c rid = None" by (simp add: client_wf_def)
  with c1 have w: "waiting rid c1" by (simp add: waiting_def)
  have "i \<noteq> rid" if "(d, i) \<in> set (timers c)" for d i
    using wf_timer_ids [OF assms(1) that] rid by simp
  with c1 have "\<forall>(d, i)\<in>set (timers c1). i = rid \<longrightarrow> d = now + TIMEOUT_MS" by auto
  with w c1 show "outstanding rid (now + TIMEOUT_MS) c1" by (simp add: outstanding_def)
  from c1 show "posted c1 = posted c @ [JObj [(''type'', JStr (MESSAGE_PREFIX @ ''REQUEST'')), (''method'', m),
                     (''params'', p), (''requestId'', JNum rid)]]" by simp
qed

lemma client_init_wf: "client_wf client_init"
  by (simp add: client_wf_def client_init_def)

lemma sendMessage_wf:
  assumes "client_wf c"
  shows "client_wf (snd (sendMessage m p now c))"
proof -
  have "i \<le> requestCounter c + 1" if "(d, i) \<in> set (timers c)" for d i
    using wf_timer_ids [OF assms that] by simp
  with assms show ?thesis
    by (auto simp: sendMessage_def Let_def client_wf_def)
qed

lemma message_wf:
  assumes "client_wf c"
  shows "client_wf (client_step (Message ev) c)"
  using message_step_cases [of ev c] assms
  by (auto simp: client_wf_def settle_def)

lemma on_timeout_wf: "client_wf c \<Longrightarrow> client_wf (client_on_timeout i c)"
  by (auto simp: client_wf_def client_on_timeout_def settle_def)

lemma fold_timers_wf:
  "client_wf c \<Longrightarrow> client_wf (fold (timer_step now) ts c) \<and>
     timers (fold (timer_step now) ts c) = timers c \<and>
     requestCounter (fold (timer_step now) ts c) = requestCounter c"
proof (induction ts arbitrary: c)
  case Nil
  then show ?case by simp
next
  case (Cons t ts)
  obtain d i where t: "t = (d, i)" by (cases t)
  have "client_wf (timer_step now t c)"
    using Cons.prems t by (simp add: timer_step_def on_timeout_wf)
  moreover have "timers (timer_step now t c) = timers c"
    "requestCounter (timer_step now t c) = requestCounter c"
    using t by (simp_all add: timer_step_def client_on_timeout_def)
  ultimately show ?case using Cons.IH [of "timer_step now t c"] by simp
qed

lemma run_timers_wf:
  assumes "client_wf c"
  shows "client_wf (run_timers now c)"
proof -
  let ?c = "fold (timer_step now) (timers c) c"
  from fold_timers_wf [OF assms, of now "timers c"]
  have wf: "client_wf ?c" and tm: "timers ?c = timers c" by simp_all
  have "i \<le> requestCounter ?c" if "(d, i) \<in> set (timers c)" for d i
    using wf_timer_ids [OF wf, of d i] that tm by simp
  with wf show ?thesis
    by (auto simp: run_timers_def client_wf_def)
qed

lemma step_wf: "client_wf c \<Longrightarrow> client_wf (client_step e c)"
  by (cases e) (simp_all add: message_wf run_timers_wf sendMessage_wf)

text \<open>The invariant holds of every state the client reaches.\<close>

lemma reachable_wf: "reachable c \<Longrightarrow> client_wf c"
  by (induction rule: reachable.induct) (auto intro: client_init_wf step_wf)

text \<open>
  A call and what follows it: quiet events leave it outstanding; after them the
  deadline ends it with the timeout, a reply with the reply's settlement, and later
  events change nothing.
\<close>

lemma call_then_events:
  assumes "reachable c" "sendMessage m p now c = (rid, c1)" "quiet rid (now + TIMEOUT_MS) es"
  shows "waiting rid (client_run es c1)"
    and "now + TIMEOUT_MS \<le> t \<Longrightarrow>
           finished rid (Rejected ''Request timeout'') (client_run (es @ Tick t # post) c1)"
    and "is_reply_for rid ev \<Longrightarrow>
           finished rid (reply_settlement ev) (client_run (es @ Message ev # post) c1)"
proof -
  note call = sendMessage_call [OF reachable_wf [OF assms(1)] assms(2)]
  from run_outstanding [OF call(2) assms(3)]
  have out: "outstanding rid (now + TIMEOUT_MS) (client_run es c1)" .
  then show "waiting rid (client_run es c1)" by (simp add: outstanding_def)
  show "finished rid (Rejected ''Request timeout'') (client_run (es @ Tick t # post) c1)"
    if "now + TIMEOUT_MS \<le> t"
    using tick_due [OF out that] by (simp add: run_append run_Cons run_finished)
  show "finished rid (reply_settlement ev) (client_run (es @ Message ev # post) c1)"
    if "is_reply_for rid ev"
    using message_reply [OF _ that, of "client_run es c1"] out
    by (simp add: run_append run_Cons run_finished outstanding_def)
qed


lemma relay_silent:
  "ev_from_window ev \<Longrightarrow> js_get (ev_data ev) ''type'' = JStr (MESSAGE_PREFIX @ ''REQUEST'') \<Longrightarrow>
   \<not> truthy (js_get (ev_data ev) ''method'') \<Longrightarrow> relay_on_message env ev sw = Inr ([], sw)"
  by (auto simp: relay_on_message_def Let_def)

text \<open>
  Claim C10. The relay's listener returns before the dispatch on every request
  envelope whose method is missing or falsy: it posts nothing and touches neither its
  cache nor the network. For a call of the client with such a method this means that
  the relay never answers: as long as nobody else posts a reply for the id, the call is
  pending until its own timer is due, and is then rejected with \<^verbatim>\<open>Request timeout\<close>.
\<close>

theorem C10_no_method_no_response:
  "(ev_from_window ev \<and> js_get (ev_data ev) ''type'' = JStr (MESSAGE_PREFIX @ ''REQUEST'') \<and>
      \<not> truthy (js_get (ev_data ev) ''method'') \<longrightarrow>
      relay_on_message env ev sw = Inr ([], sw)) \<and>
   (\<not> truthy m \<and> reachable c \<and> sendMessage m p now c = (rid, c1) \<longrightarrow>
      relay_on_message env \<lparr>ev_from_window = True, ev_data = last (posted c1)\<rparr> sw = Inr ([], sw) \<and>
      (quiet rid (now + TIMEOUT_MS) es \<longrightarrow> waiting rid (client_run es c1)) \<and>
      (quiet rid (now + TIMEOUT_MS) es \<and> now + TIMEOUT_MS \<le> t \<longrightarrow>
         finished rid (Rejected ''Request timeout'') (client_run (es @ Tick t # post) c1)))"
proof (intro conjI impI)
  assume "ev_from_window ev \<and> js_get (ev_data ev) ''type'' = JStr (MESSAGE_PREFIX @ ''REQUEST'') \<and>
      \<not> truthy (js_get (ev_data ev) ''method'')"
  then show "relay_on_message env ev sw = Inr ([], sw)" by (simp add: relay_silent)
next
  assume a: "\<not> truthy m \<and> reachable c \<and> sendMessage m p now c = (rid, c1)"
  then have "last (posted c1) = JObj [(''type'', JStr (MESSAGE_PREFIX @ ''REQUEST'')), (''method'', m),
                     (''params'', p), (''requestId'', JNum rid)]"
    using sendMessage_call(3) [of c m p now rid c1] reachable_wf [of c] by simp
  with a show "relay_on_message env \<lparr>ev_from_window = True, ev_data = last (posted c1)\<rparr> sw = Inr ([], sw)"
    by (intro relay_silent) simp_all
next
  assume "\<not> truthy m \<and> reachable c \<and> sendMessage m p now c = (rid, c1)"
    and "quiet rid (now + TIMEOUT_MS) es"
  then show "waiting rid (client_run es c1)"
    using call_then_events(1) [of c m p now rid c1 es] by blast
next
  assume "\<not> truthy m \<and> reachable c \<and> sendMessage m p now c = (rid, c1)"
    and "quiet rid (now + TIMEOUT_MS) es \<and> now + TIMEOUT_MS \<le> t"
  then show "finished rid (Rejected ''Request timeout'') (client_run (es @ Tick t # post) c1)"
    using call_then_events(2) [of c m p now rid c1 es t post] by blast
qed

text \<open>
  Claim C9. With a falsy id (missing, null, the empty string, 0, false) fetch-by-id
  fails at once, in the relay with the error \<^verbatim>\<open>dataModuleId is required\<close> and in the
  coordinator with the failure reply \<^verbatim>\<open>dataModuleId required\<close>. The state and the world
  are returned as they were: no discovery has run and no request was issued.
\<close>

theorem C9_empty_id_no_network:
  "(\<not> truthy dataModuleId \<longrightarrow>
      relay_fetchContent env dataModuleId (st, w) =
        (Inl (JsError ''Error'' ''dataModuleId is required''), st, w)) \<and>
   (\<not> truthy (js_get request ''dataModuleId'') \<longrightarrow>
      handleFetchContent env request (bst, w) = (failure_reply ''dataModuleId required'', bst, w))"
  by (simp add: relay_fetchContent_def handleFetchContent_def Let_def)

text \<open>The empty string in the relay, a request without id in the coordinator.\<close>

theorem C9_witness:
  "relay_fetchContent (test_env (net_only ''127.0.0.1'' 59720)) (JStr []) (relay_init, world0) =
     (Inl (JsError ''Error'' ''dataModuleId is required''), relay_init, world0) \<and>
   handleFetchContent (test_env (net_only ''127.0.0.1'' 59720)) (JObj [(''action'', JStr ''fetchContent'')])
       (bg_init, world0) =
     (failure_reply ''dataModuleId required'', bg_init, world0)"
  using C9_empty_id_no_network [of "JStr []" "test_env (net_only ''127.0.0.1'' 59720)" relay_init world0
      "JObj [(''action'', JStr ''fetchContent'')]" bg_init]
  by simp

lemmas client_eval =
  sendMessage_def client_init_def Let_def TIMEOUT_MS_def MESSAGE_PREFIX_def run_timers_def
  timer_step_def client_on_timeout_def client_on_message_def settle_def is_reply_for_def
  reply_settlement_def waiting_def finished_def client_run_def quiet_def client_step.simps(1)


text \<open>
  An envelope with the empty method name, and a call without method from the initial
  state: pending while its envelope comes back and the clock reaches 30999, timed out
  at 31000.
\<close>

theorem C10_witness:
  "relay_on_message (test_env (net_only ''127.0.0.1'' 59720)) demo_no_method_event (relay_init, world0)
     = Inr ([], relay_init, world0) \<and>
   relay_on_message (test_env (net_only ''127.0.0.1'' 59720))
       \<lparr>ev_from_window = True, ev_data = last (posted (snd demo_call_no_method))\<rparr> (relay_init, world0)
     = Inr ([], relay_init, world0) \<and>
   waiting 1 (client_run [Message demo_no_method_event, Tick 30999] (snd demo_call_no_method)) \<and>
   finished 1 (Rejected ''Request timeout'')
     (client_run ([Message demo_no_method_event, Tick 30999] @ Tick 31000 # [])
        (snd demo_call_no_method))"
proof -
  let ?E = "test_env (net_only ''127.0.0.1'' 59720)"
  have call: "sendMessage JUndefined (JObj []) 1000 client_init = (1, snd demo_call_no_method)"
    by (simp add: demo_call_no_method_def sendMessage_def Let_def client_init_def)
  have q: "quiet 1 (1000 + TIMEOUT_MS) [Message demo_no_method_event, Tick 30999]"
    by (simp add: client_eval demo_no_method_event_def)
  have ev: "ev_from_window demo_no_method_event \<and>
            js_get (ev_data demo_no_method_event) ''type'' = JStr (MESSAGE_PREFIX @ ''REQUEST'') \<and>
            \<not> truthy (js_get (ev_data demo_no_method_event) ''method'')"
    by (simp add: demo_no_method_event_def MESSAGE_PREFIX_def)
  have d: "1000 + TIMEOUT_MS \<le> 31000"
    by (simp add: TIMEOUT_MS_def)
  have f: "\<not> truthy JUndefined" by simp
  note T = C10_no_method_no_response [of demo_no_method_event ?E "(relay_init, world0)" JUndefined
      client_init "JObj []" 1000 1 "snd demo_call_no_method"
      "[Message demo_no_method_event, Tick 30999]" 31000 "[]"]
  from T ev call q d f reachable.init show ?thesis by blast
qed

text \<open>
  Claim C6 says that every request with an unrecognised method name is answered with an
  error reply. The relay is silent on a request whose method is the empty string (or is
  missing, see C10).
\<close>

theorem C6_silent_counterexample:
  "relay_on_message (test_env (net_only ''127.0.0.1'' 59720)) demo_no_method_event (relay_init, world0)
     = Inr ([], relay_init, world0)"
  by (simp add: relay_on_message_def demo_no_method_event_def MESSAGE_PREFIX_def Let_def)

text \<open>
  Claim C6, amended. A request envelope whose method is truthy and none of
  \<^verbatim>\<open>detect\<close>, \<^verbatim>\<open>search\<close>, \<^verbatim>\<open>fetchContent\<close> makes the relay post exactly one response, with
  the request's id and the error \<^verbatim>\<open>Unknown method: <method>\<close>, without touching cache or
  network. The coordinator answers every request object whose action is none of its five
  with the failure reply \<^verbatim>\<open>Unknown action\<close> through the request's own
  \<^verbatim>\<open>sendResponse\<close>; that reply carries no id.
\<close>

theorem C6_unknown_method_error_reply:
  "(ev_from_window ev \<and> js_get (ev_data ev) ''type'' = JStr (MESSAGE_PREFIX @ ''REQUEST'') \<and>
      truthy (js_get (ev_data ev) ''method'') \<and>
      js_get (ev_data ev) ''method'' \<notin> {JStr ''detect'', JStr ''search'', JStr ''fetchContent''} \<longrightarrow>
      relay_on_message env ev sw =
        Inr ([JObj [(''type'', JStr (MESSAGE_PREFIX @ ''RESPONSE'')),
                    (''requestId'', js_get (ev_data ev) ''requestId''),
                    (''error'', JStr (''Unknown method: '' @ js_to_string (js_get (ev_data ev) ''method''))),
                    (''errorDetails'',
                       JObj [(''method'', js_get (ev_data ev) ''method''),
                             (''params'', js_get (ev_data ev) ''params''),
                             (''timestamp'', JStr (e_toISOString env (w_clock (snd sw))))])]], sw)) \<and>
   (request \<noteq> JNull \<and> request \<noteq> JUndefined \<and>
      js_get request ''action'' \<notin>
        {JStr ''detect'', JStr ''search'', JStr ''fetchContent'', JStr ''customFetch'', JStr ''getStatus''} \<longrightarrow>
      bg_on_message env request bsw = Inr ([failure_reply ''Unknown action''], False, bsw))"
proof (intro conjI impI)
  assume a: "ev_from_window ev \<and> js_get (ev_data ev) ''type'' = JStr (MESSAGE_PREFIX @ ''REQUEST'') \<and>
      truthy (js_get (ev_data ev) ''method'') \<and>
      js_get (ev_data ev) ''method'' \<notin> {JStr ''detect'', JStr ''search'', JStr ''fetchContent''}"
  then have "ev_data ev \<noteq> JNull" "ev_data ev \<noteq> JUndefined" by auto
  with a show "relay_on_message env ev sw =
        Inr ([JObj [(''type'', JStr (MESSAGE_PREFIX @ ''RESPONSE'')),
                    (''requestId'', js_get (ev_data ev) ''requestId''),
                    (''error'', JStr (''Unknown method: '' @ js_to_string (js_get (ev_data ev) ''method''))),
                    (''errorDetails'',
                       JObj [(''method'', js_get (ev_data ev) ''method''),
                             (''params'', js_get (ev_data ev) ''params''),
                             (''timestamp'', JStr (e_toISOString env (w_clock (snd sw))))])]], sw)"
    by (cases sw) (simp add: relay_on_message_def Let_def)
next
  assume "request \<noteq> JNull \<and> request \<noteq> JUndefined \<and>
      js_get request ''action'' \<notin>
        {JStr ''detect'', JStr ''search'', JStr ''fetchContent'', JStr ''customFetch'', JStr ''getStatus''}"
  then show "bg_on_message env request bsw = Inr ([failure_reply ''Unknown action''], False, bsw)"
    by (simp add: bg_on_message_def Let_def)
qed

text \<open>The method \<^verbatim>\<open>getStatus\<close> is unknown to the relay, the action \<^verbatim>\<open>ping\<close> to the coordinator.\<close>

theorem C6_witness:
  "relay_on_message (test_env (net_only ''127.0.0.1'' 59720)) demo_unknown_method_event (relay_init, world0) =
     Inr ([JObj [(''type'', JStr ''AIRNAVX_BRIDGE_RESPONSE''), (''requestId'', JNum 7),
                 (''error'', JStr ''Unknown method: getStatus''),
                 (''errorDetails'',
                    JObj [(''method'', JStr ''getStatus''), (''params'', JObj []),
                          (''timestamp'', JStr ''1000'')])]], relay_init, world0) \<and>
   bg_on_message (test_env (net_only ''127.0.0.1'' 59720)) (JObj [(''action'', JStr ''ping'')]) (bg_init, world0) =
     Inr ([failure_reply ''Unknown action''], False, bg_init, world0)"
  using C6_unknown_method_error_reply [of demo_unknown_method_event "test_env (net_only ''127.0.0.1'' 59720)"
      "(relay_init, world0)" "JObj [(''action'', JStr ''ping'')]" "(bg_init, world0)"]
  by (simp add: demo_unknown_method_event_def MESSAGE_PREFIX_def test_env_def world0_def show_int_def
      show_nat.simps digit_char_def)

section \<open>Properties of the calls to the local service\<close>

lemma fetch_traceD: "fetch env tmo rq w = (out, w') \<Longrightarrow> w_trace w' = w_trace w @ [rq]"
  using fetch_trace [of env tmo rq w] by simp









lemma bg_detect_hit:
  "bg_cache_valid st (w_clock w) \<Longrightarrow> bg_detectAirNavX env False (st, w) = (detectedAirNavX st, st, w)"
  by (simp add: bg_detectAirNavX_def)











lemmas attempts_eval =
  relay_attempts_def legacy_attempts_def relay_attempt_request_def legacy_attempt_request_def
  get_request_def Let_def

text \<open>
  Claim C4, amended. The relay's list makes, in this order, six \<^verbatim>\<open>GET\<close> requests without
  body (the id under \<^verbatim>\<open>dataModuleId\<close>; the same with the two flags; under \<^verbatim>\<open>dmCode\<close>;
  under \<^verbatim>\<open>id\<close>; as a path segment of \<^verbatim>\<open>/airnavx/api/content/\<close>; under \<^verbatim>\<open>dataModuleId\<close> on
  the viewer route) and last a \<^verbatim>\<open>POST\<close> with the id and the two flags as JSON body. The
  list of the earlier content script makes three requests: a \<^verbatim>\<open>POST\<close> with that JSON
  body, a \<^verbatim>\<open>POST\<close> without body with id and flags in the query, and a \<^verbatim>\<open>GET\<close> with the id
  under \<^verbatim>\<open>dataModuleId\<close>.
\<close>

theorem C4_attempt_order:
  "map relay_attempt_request (relay_attempts env host port i) =
     [get_request (base_url host port @ ''/airnavx/api/dataModule/content?dataModuleId=''
                     @ e_encodeURIComponent env (js_to_string i)),
      get_request (base_url host port @ ''/airnavx/api/dataModule/content?dataModuleId=''
                     @ e_encodeURIComponent env (js_to_string i) @ ''&forHatch=false&forPrint=false''),
      get_request (base_url host port @ ''/airnavx/api/dataModule/content?dmCode=''
                     @ e_encodeURIComponent env (js_to_string i)),
      get_request (base_url host port @ ''/airnavx/api/dataModule/content?id=''
                     @ e_encodeURIComponent env (js_to_string i)),
      get_request (base_url host port @ ''/airnavx/api/content/''
                     @ e_encodeURIComponent env (js_to_string i)),
      get_request (base_url host port @ ''/airnavx/api/viewer/content?dataModuleId=''
                     @ e_encodeURIComponent env (js_to_string i)),
      \<lparr>rq_method = ''POST'', rq_url = base_url host port @ ''/airnavx/api/dataModule/content'',
       rq_headers = [(''Accept'', ''application/json''), (''Content-Type'', ''application/json'')],
       rq_body = Some (JObj [(''dataModuleId'', i), (''forHatch'', JBool False),
                             (''forPrint'', JBool False)])\<rparr>] \<and>
   map at_name (relay_attempts env host port i) =
     [''GET with dataModuleId param'', ''GET with all params'', ''GET with dmCode param'',
      ''GET with id param'', ''GET alternative endpoint'', ''GET viewer endpoint'',
      ''POST with JSON body''] \<and>
   map legacy_attempt_request (legacy_attempts env host port i) =
     [\<lparr>rq_method = ''POST'', rq_url = base_url host port @ ''/airnavx/api/dataModule/content'',
       rq_headers = [(''Accept'', ''application/json''), (''Content-Type'', ''application/json'')],
       rq_body = Some (JObj [(''dataModuleId'', i), (''forHatch'', JBool False),
                             (''forPrint'', JBool False)])\<rparr>,
      \<lparr>rq_method = ''POST'',
       rq_url = base_url host port @ ''/airnavx/api/dataModule/content?dataModuleId=''
                  @ e_encodeURIComponent env (js_to_string i) @ ''&forHatch=false&forPrint=false'',
       rq_headers = [(''Accept'', ''application/json'')], rq_body = None\<rparr>,
      get_request (base_url host port @ ''/airnavx/api/dataModule/content?dataModuleId=''
                     @ e_encodeURIComponent env (js_to_string i))]"
  by (simp add: attempts_eval)

text \<open>
  Claim C4 says that the attempt list starts with six \<^verbatim>\<open>GET\<close>s and ends with the \<^verbatim>\<open>POST\<close>.
  The list of the earlier content script starts with two \<^verbatim>\<open>POST\<close>s.
\<close>

theorem C4_legacy_order_counterexample:
  "map rq_method (map legacy_attempt_request
     (legacy_attempts (test_env (net_only ''127.0.0.1'' 59720)) ''127.0.0.1'' 59720 (JStr ''X'')))
   = [''POST'', ''POST'', ''GET'']"
  by (simp add: attempts_eval)

text \<open>The seven requests of the relay for the id \<^verbatim>\<open>X\<close> at 127.0.0.1:59720.\<close>

theorem C4_witness:
  "map rq_url (map relay_attempt_request
     (relay_attempts (test_env (net_only ''127.0.0.1'' 59720)) ''127.0.0.1'' 59720 (JStr ''X''))) =
     [''http://127.0.0.1:59720/airnavx/api/dataModule/content?dataModuleId=X'',
      ''http://127.0.0.1:59720/airnavx/api/dataModule/content?dataModuleId=X&forHatch=false&forPrint=false'',
      ''http://127.0.0.1:59720/airnavx/api/dataModule/content?dmCode=X'',
      ''http://127.0.0.1:59720/airnavx/api/dataModule/content?id=X'',
      ''http://127.0.0.1:59720/airnavx/api/content/X'',
      ''http://127.0.0.1:59720/airnavx/api/viewer/content?dataModuleId=X'',
      ''http://127.0.0.1:59720/airnavx/api/dataModule/content''] \<and>
   map rq_method (map relay_attempt_request
     (relay_attempts (test_env (net_only ''127.0.0.1'' 59720)) ''127.0.0.1'' 59720 (JStr ''X''))) =
     [''GET'', ''GET'', ''GET'', ''GET'', ''GET'', ''GET'', ''POST'']"
  unfolding conjunct1 [OF C4_attempt_order]
  by (simp add: get_request_def base_url_def show_nat.simps digit_char_def test_env_def)











section \<open>The two caches and the two paths compared\<close>

lemma relay_detect_caches:
  "airnavxCache (fst (snd (relay_detectAirNavX env d sw))) = Some (fst (relay_detectAirNavX env d sw))"
  by (cases sw) (auto simp: relay_detectAirNavX_def Let_def split: prod.splits)

lemma relay_detect_hit:
  "airnavxCache st = Some res \<Longrightarrow> w_clock w - airnavxCacheTimestamp st < relay_CACHE_DURATION \<Longrightarrow>
   relay_detectAirNavX env d (st, w) = (res, st, w)"
  by (simp add: relay_detectAirNavX_def)

lemma bg_detect_state:
  "detectedAirNavX (fst (snd (bg_detectAirNavX env f sw))) = fst (bg_detectAirNavX env f sw)"
  by (cases sw) (auto simp: bg_detectAirNavX_def Let_def split: prod.splits option.splits)

lemma sweep_ports_grows:
  "length (w_trace w) \<le> length (w_trace (snd (sweep_ports env tmo h ps w)))"
proof (induction ps arbitrary: w)
  case Nil
  then show ?case by simp
next
  case (Cons p ps)
  obtain out w1 where f: "fetch env tmo (probe_request h p) w = (out, w1)"
    by (cases "fetch env tmo (probe_request h p) w")
  from fetch_traceD [OF f] Cons.IH [of w1] f show ?case by simp
qed

lemma sweep_ports_nonempty:
  "length (w_trace w) < length (w_trace (snd (sweep_ports env tmo h (p # ps) w)))"
proof -
  obtain out w1 where f: "fetch env tmo (probe_request h p) w = (out, w1)"
    by (cases "fetch env tmo (probe_request h p) w")
  from fetch_traceD [OF f] sweep_ports_grows [of w1 env tmo h ps] f show ?thesis by simp
qed

lemma sweep_hosts_grows:
  "length (w_trace w) \<le> length (w_trace (snd (sweep_hosts env tmo hs ps w)))"
proof (induction hs arbitrary: w)
  case Nil
  then show ?case by simp
next
  case (Cons h hs)
  obtain r w1 where s: "sweep_ports env tmo h ps w = (r, w1)"
    by (cases "sweep_ports env tmo h ps w")
  from sweep_ports_grows [of w env tmo h ps] s have "length (w_trace w) \<le> length (w_trace w1)"
    by simp
  with Cons.IH [of w1] s show ?case by (cases r) auto
qed

lemma sweep_hosts_nonempty:
  "length (w_trace w) < length (w_trace (snd (sweep_hosts env tmo (h # hs) (p # ps) w)))"
proof -
  obtain r w1 where s: "sweep_ports env tmo h (p # ps) w = (r, w1)"
    by (cases "sweep_ports env tmo h (p # ps) w")
  from sweep_ports_nonempty [of w env tmo h p ps] s have "length (w_trace w) < length (w_trace w1)"
    by simp
  with sweep_hosts_grows [of w1 env tmo hs "p # ps"] s show ?thesis
    by (cases r) (auto simp del: sweep_ports.simps)
qed

lemma relay_detect_sweep:
  assumes "\<not> (airnavxCache st \<noteq> None \<and> w_clock w - airnavxCacheTimestamp st < relay_CACHE_DURATION)"
    and "relay_detectAirNavX env d (st, w) = (r, st1, w1)"
  shows "st1 = \<lparr>airnavxCache = Some r, airnavxCacheTimestamp = w_clock w1\<rparr>"
    and "length (w_trace w) < length (w_trace w1)"
proof -
  obtain found w' where s: "sweep_hosts env (Some 2000) relay_hostsToTest relay_candidatePorts w = (found, w')"
    by (cases "sweep_hosts env (Some 2000) relay_hostsToTest relay_candidatePorts w")
  from relay_detect_miss [OF assms(1), of env d] assms(2) s
  have e: "r = detection_of found" "st1 = \<lparr>airnavxCache = Some r, airnavxCacheTimestamp = w_clock w'\<rparr>"
    "w1 = w'"
    by simp_all
  from e show "st1 = \<lparr>airnavxCache = Some r, airnavxCacheTimestamp = w_clock w1\<rparr>"
    by simp
  have "length (w_trace w) <
          length (w_trace (snd (sweep_hosts env (Some 2000) relay_hostsToTest relay_candidatePorts w)))"
    unfolding relay_hostsToTest_def relay_candidatePorts_def by (rule sweep_hosts_nonempty)
  with s e show "length (w_trace w) < length (w_trace w1)"
    by simp
qed

lemma bg_detect_sweep:
  assumes "f \<or> \<not> bg_cache_valid st (w_clock w)"
    and "bg_detectAirNavX env f (st, w) = (r, st1, w1)"
  shows "detectedAirNavX st1 = r"
    and "lastDetectionTime st1 = Some (w_clock w1)"
    and "length (w_trace w) < length (w_trace w1)"
proof -
  obtain found w' where
    s: "sweep_hosts env (Some DETECTION_TIMEOUT) AIRNAVX_HOSTS AIRNAVX_CANDIDATE_PORTS w = (found, w')"
    by (cases "sweep_hosts env (Some DETECTION_TIMEOUT) AIRNAVX_HOSTS AIRNAVX_CANDIDATE_PORTS w")
  from assms s show "detectedAirNavX st1 = r"
    by (cases found) (auto simp: bg_detectAirNavX_def)
  from assms s show "lastDetectionTime st1 = Some (w_clock w1)"
    by (cases found) (auto simp: bg_detectAirNavX_def)
  from assms s have w: "w1 = w'"
    by (cases found) (auto simp: bg_detectAirNavX_def)
  have "length (w_trace w) <
          length (w_trace (snd (sweep_hosts env (Some DETECTION_TIMEOUT) AIRNAVX_HOSTS
                                  AIRNAVX_CANDIDATE_PORTS w)))"
    unfolding AIRNAVX_HOSTS_def AIRNAVX_CANDIDATE_PORTS_def by (rule sweep_hosts_nonempty)
  with s w show "length (w_trace w) < length (w_trace w1)"
    by simp
qed

lemma bg_detect_none_sweeps:
  assumes "bg_detectAirNavX env f (st, w) = (None, st1, w1)"
  shows "length (w_trace w2) < length (w_trace (snd (snd (bg_detectAirNavX env f2 (st1, w2)))))"
proof -
  have miss: "f \<or> \<not> bg_cache_valid st (w_clock w)"
  proof (rule ccontr)
    assume "\<not> (f \<or> \<not> bg_cache_valid st (w_clock w))"
    with assms show False
      by (auto simp: bg_detectAirNavX_def bg_cache_valid_def)
  qed
  from bg_detect_sweep(1) [OF miss assms] have "\<not> bg_cache_valid st1 (w_clock w2)"
    by (simp add: bg_cache_valid_def)
  then have m2: "f2 \<or> \<not> bg_cache_valid st1 (w_clock w2)"
    by simp
  obtain r2 st2 w3 where d: "bg_detectAirNavX env f2 (st1, w2) = (r2, st2, w3)"
    by (cases "bg_detectAirNavX env f2 (st1, w2)")
  from bg_detect_sweep(3) [OF m2 d] d show ?thesis
    by simp
qed

text \<open>
  Claim C2, amended. The relay stores the result of every probe, found or not, and
  returns a stored result that is less than 30000 ms old without any request, whatever
  argument it is called with: it has no forced refresh. A probe of the relay that
  sweeps issues at least one request and stores its result with the time at which the
  sweep ended; so a second probe less than 30000 ms after that time returns the same
  result, leaves the state as it is and issues nothing, and a probe 30000 ms after it or
  later sweeps again. The coordinator's state after a probe holds the result; it returns
  a stored endpoint less than five minutes old (with a nonzero time stamp) without any
  request when the refresh is not forced; and when the refresh is forced, or nothing was
  found the last time, it runs the sweep from the start, which issues at least one
  request. A probe of the coordinator that sweeps stores result and time; when it found
  an endpoint, an unforced probe less than five minutes later returns it and issues
  nothing; when it found none, the next probe sweeps again at any time.
\<close>

theorem C2_cache_policy:
  "airnavxCache (fst (snd (relay_detectAirNavX env d sw))) = Some (fst (relay_detectAirNavX env d sw)) \<and>
   (airnavxCache st = Some res \<and> w_clock w - airnavxCacheTimestamp st < relay_CACHE_DURATION \<longrightarrow>
      relay_detectAirNavX env d' (st, w) = (res, st, w)) \<and>
   detectedAirNavX (fst (snd (bg_detectAirNavX env f bsw))) = fst (bg_detectAirNavX env f bsw) \<and>
   (detectedAirNavX bst = Some hp \<and> lastDetectionTime bst = Some t \<and> t \<noteq> 0 \<and>
    w_clock w - t < bg_CACHE_DURATION \<longrightarrow>
      bg_detectAirNavX env False (bst, w) = (Some hp, bst, w)) \<and>
   (f' \<or> detectedAirNavX bst = None \<longrightarrow>
      fst (bg_detectAirNavX env f' (bst, w)) =
        fst (sweep_hosts env (Some DETECTION_TIMEOUT) AIRNAVX_HOSTS AIRNAVX_CANDIDATE_PORTS w) \<and>
      snd (snd (bg_detectAirNavX env f' (bst, w))) =
        snd (sweep_hosts env (Some DETECTION_TIMEOUT) AIRNAVX_HOSTS AIRNAVX_CANDIDATE_PORTS w) \<and>
      length (w_trace w) < length (w_trace (snd (snd (bg_detectAirNavX env f' (bst, w)))))) \<and>
   (\<not> (airnavxCache rst \<noteq> None \<and> w_clock rw - airnavxCacheTimestamp rst < relay_CACHE_DURATION) \<and>
    relay_detectAirNavX env d1 (rst, rw) = (r, rst1, rw1) \<longrightarrow>
      rst1 = \<lparr>airnavxCache = Some r, airnavxCacheTimestamp = w_clock rw1\<rparr> \<and>
      length (w_trace rw) < length (w_trace rw1) \<and>
      (w_clock rw2 - w_clock rw1 < relay_CACHE_DURATION \<longrightarrow>
         relay_detectAirNavX env d2 (rst1, rw2) = (r, rst1, rw2)) \<and>
      (\<not> w_clock rw2 - w_clock rw1 < relay_CACHE_DURATION \<longrightarrow>
         length (w_trace rw2) < length (w_trace (snd (snd (relay_detectAirNavX env d2 (rst1, rw2))))))) \<and>
   ((f1 \<or> \<not> bg_cache_valid cst (w_clock cw)) \<and>
    bg_detectAirNavX env f1 (cst, cw) = (cr, cst1, cw1) \<longrightarrow>
      detectedAirNavX cst1 = cr \<and>
      lastDetectionTime cst1 = Some (w_clock cw1) \<and>
      length (w_trace cw) < length (w_trace cw1) \<and>
      (cr \<noteq> None \<and> w_clock cw1 \<noteq> 0 \<and> w_clock cw2 - w_clock cw1 < bg_CACHE_DURATION \<longrightarrow>
         bg_detectAirNavX env False (cst1, cw2) = (cr, cst1, cw2)) \<and>
      (cr = None \<longrightarrow>
         length (w_trace cw2) < length (w_trace (snd (snd (bg_detectAirNavX env f2 (cst1, cw2)))))))"
proof (intro conjI impI)
  show "airnavxCache (fst (snd (relay_detectAirNavX env d sw))) = Some (fst (relay_detectAirNavX env d sw))"
    by (rule relay_detect_caches)
  show "detectedAirNavX (fst (snd (bg_detectAirNavX env f bsw))) = fst (bg_detectAirNavX env f bsw)"
    by (rule bg_detect_state)
next
  assume "airnavxCache st = Some res \<and> w_clock w - airnavxCacheTimestamp st < relay_CACHE_DURATION"
  then show "relay_detectAirNavX env d' (st, w) = (res, st, w)"
    by (simp add: relay_detect_hit)
next
  assume "detectedAirNavX bst = Some hp \<and> lastDetectionTime bst = Some t \<and> t \<noteq> 0 \<and>
    w_clock w - t < bg_CACHE_DURATION"
  then show "bg_detectAirNavX env False (bst, w) = (Some hp, bst, w)"
    by (simp add: bg_detectAirNavX_def bg_cache_valid_def)
next
  assume a: "f' \<or> detectedAirNavX bst = None"
  then have miss: "f' \<or> \<not> bg_cache_valid bst (w_clock w)"
    by (auto simp: bg_cache_valid_def)
  note m = bg_detect_miss [OF miss, of env]
  from m show "fst (bg_detectAirNavX env f' (bst, w)) =
        fst (sweep_hosts env (Some DETECTION_TIMEOUT) AIRNAVX_HOSTS AIRNAVX_CANDIDATE_PORTS w)"
    by blast
  from m show s: "snd (snd (bg_detectAirNavX env f' (bst, w))) =
        snd (sweep_hosts env (Some DETECTION_TIMEOUT) AIRNAVX_HOSTS AIRNAVX_CANDIDATE_PORTS w)"
    by blast
  show "length (w_trace w) < length (w_trace (snd (snd (bg_detectAirNavX env f' (bst, w)))))"
    unfolding s AIRNAVX_HOSTS_def AIRNAVX_CANDIDATE_PORTS_def by (rule sweep_hosts_nonempty)
next
  assume a: "\<not> (airnavxCache rst \<noteq> None \<and> w_clock rw - airnavxCacheTimestamp rst < relay_CACHE_DURATION) \<and>
    relay_detectAirNavX env d1 (rst, rw) = (r, rst1, rw1)"
  then have miss: "\<not> (airnavxCache rst \<noteq> None \<and> w_clock rw - airnavxCacheTimestamp rst < relay_CACHE_DURATION)"
    and p: "relay_detectAirNavX env d1 (rst, rw) = (r, rst1, rw1)"
    by blast+
  show st: "rst1 = \<lparr>airnavxCache = Some r, airnavxCacheTimestamp = w_clock rw1\<rparr>"
    by (rule relay_detect_sweep(1) [OF miss p])
  show "length (w_trace rw) < length (w_trace rw1)"
    by (rule relay_detect_sweep(2) [OF miss p])
  {
    assume "w_clock rw2 - w_clock rw1 < relay_CACHE_DURATION"
    with st show "relay_detectAirNavX env d2 (rst1, rw2) = (r, rst1, rw2)"
      by (simp add: relay_detect_hit)
  }
  {
    assume "\<not> w_clock rw2 - w_clock rw1 < relay_CACHE_DURATION"
    with st have m2: "\<not> (airnavxCache rst1 \<noteq> None \<and>
        w_clock rw2 - airnavxCacheTimestamp rst1 < relay_CACHE_DURATION)"
      by simp
    obtain r2 st2 w3 where q: "relay_detectAirNavX env d2 (rst1, rw2) = (r2, st2, w3)"
      by (cases "relay_detectAirNavX env d2 (rst1, rw2)")
    from relay_detect_sweep(2) [OF m2 q] q
    show "length (w_trace rw2) < length (w_trace (snd (snd (relay_detectAirNavX env d2 (rst1, rw2)))))"
      by simp
  }
next
  assume a: "(f1 \<or> \<not> bg_cache_valid cst (w_clock cw)) \<and>
    bg_detectAirNavX env f1 (cst, cw) = (cr, cst1, cw1)"
  then have miss: "f1 \<or> \<not> bg_cache_valid cst (w_clock cw)"
    and p: "bg_detectAirNavX env f1 (cst, cw) = (cr, cst1, cw1)"
    by blast+
  show det: "detectedAirNavX cst1 = cr"
    by (rule bg_detect_sweep(1) [OF miss p])
  show tm: "lastDetectionTime cst1 = Some (w_clock cw1)"
    by (rule bg_detect_sweep(2) [OF miss p])
  show "length (w_trace cw) < length (w_trace cw1)"
    by (rule bg_detect_sweep(3) [OF miss p])
  {
    assume "cr \<noteq> None \<and> w_clock cw1 \<noteq> 0 \<and> w_clock cw2 - w_clock cw1 < bg_CACHE_DURATION"
    with det tm have "bg_cache_valid cst1 (w_clock cw2)"
      by (simp add: bg_cache_valid_def)
    from bg_detect_hit [OF this, of env] det
    show "bg_detectAirNavX env False (cst1, cw2) = (cr, cst1, cw2)"
      by simp
  }
  {
    assume "cr = None"
    with p have "bg_detectAirNavX env f1 (cst, cw) = (None, cst1, cw1)"
      by simp
    then show "length (w_trace cw2) < length (w_trace (snd (snd (bg_detectAirNavX env f2 (cst1, cw2)))))"
      by (rule bg_detect_none_sweeps)
  }
qed

text \<open>
  Claim C2 says that a forced probe always sweeps and that a failed sweep is cached.
  The relay, probed with \<^verbatim>\<open>true\<close> 29999 ms after a probe that found the service with one
  request, returns the stored result and issues nothing. The coordinator, probed
  without force one millisecond after a sweep of twelve refused probes, sweeps again.
\<close>

theorem C2_no_refresh_no_failure_cache_counterexample:
  "relay_detectAirNavX (test_env (net_only ''127.0.0.1'' 59720)) (JBool True)
       (later 29999 (snd (relay_detectAirNavX (test_env (net_only ''127.0.0.1'' 59720)) (JBool False)
                            (relay_init, world_now))))
     = (Detected ''127.0.0.1'' 59720 ''AirNavX detected at 127.0.0.1:59720'',
        later 29999 (snd (relay_detectAirNavX (test_env (net_only ''127.0.0.1'' 59720)) (JBool False)
                            (relay_init, world_now)))) \<and>
   length (w_trace (snd (snd
       (relay_detectAirNavX (test_env (net_only ''127.0.0.1'' 59720)) (JBool False) (relay_init, world_now)))))
     = 1 \<and>
   fst (bg_detectAirNavX (test_env (net_script [])) False (bg_init, world_now)) = None \<and>
   length (w_trace (snd (snd (bg_detectAirNavX (test_env (net_script [])) False (bg_init, world_now))))) = 12 \<and>
   length (w_trace (snd (snd (bg_detectAirNavX (test_env (net_script [])) False
       (later 1 (snd (bg_detectAirNavX (test_env (net_script [])) False (bg_init, world_now)))))))) = 24"
  by (simp add: relay_detectAirNavX_def bg_detectAirNavX_def sweep_eval world_now_def later_def)


text \<open>
  Two probes in a row, at a clock of the present day. The relay found the service: a
  probe with \<^verbatim>\<open>true\<close> 29999 ms later returns the stored result and issues nothing. The
  relay found nothing: a probe 29999 ms later returns the stored failure and issues
  nothing, a probe 30000 ms later sweeps again. The coordinator found the service: an
  unforced probe 299999 ms later returns it and issues nothing, a forced one sweeps.
  The coordinator found nothing: the next probe sweeps again. Last, the two cache hits
  on a stored endpoint that is given.
\<close>

theorem C2_witness:
  "fst (relay_detectAirNavX (test_env (net_only ''127.0.0.1'' 59720)) (JBool False) (relay_init, world_now)) =
     Detected ''127.0.0.1'' 59720 ''AirNavX detected at 127.0.0.1:59720'' \<and>
   airnavxCacheTimestamp (fst (snd
       (relay_detectAirNavX (test_env (net_only ''127.0.0.1'' 59720)) (JBool False) (relay_init, world_now)))) =
     1762000000020 \<and>
   relay_detectAirNavX (test_env (net_only ''127.0.0.1'' 59720)) (JBool True)
       (later 29999 (snd (relay_detectAirNavX (test_env (net_only ''127.0.0.1'' 59720)) (JBool False)
                            (relay_init, world_now)))) =
     (Detected ''127.0.0.1'' 59720 ''AirNavX detected at 127.0.0.1:59720'',
      later 29999 (snd (relay_detectAirNavX (test_env (net_only ''127.0.0.1'' 59720)) (JBool False)
                          (relay_init, world_now)))) \<and>
   airnavxCache (fst (snd (relay_detectAirNavX (test_env (net_script [])) (JBool False) (relay_init, world_now))))
     = Some (NotDetected ''AirNavX not detected on any port'') \<and>
   relay_detectAirNavX (test_env (net_script [])) (JBool False)
       (later 29999 (snd (relay_detectAirNavX (test_env (net_script [])) (JBool False) (relay_init, world_now)))) =
     (NotDetected ''AirNavX not detected on any port'',
      later 29999 (snd (relay_detectAirNavX (test_env (net_script [])) (JBool False) (relay_init, world_now)))) \<and>
   length (w_trace (snd (later 30000 (snd (relay_detectAirNavX (test_env (net_script [])) (JBool False)
                                             (relay_init, world_now))))))
     < length (w_trace (snd (snd (relay_detectAirNavX (test_env (net_script [])) (JBool False)
         (later 30000 (snd (relay_detectAirNavX (test_env (net_script [])) (JBool False)
                              (relay_init, world_now)))))))) \<and>
   lastDetectionTime (fst (snd
       (bg_detectAirNavX (test_env (net_only ''127.0.0.1'' 59720)) False (bg_init, world_now)))) =
     Some 1762000000020 \<and>
   bg_detectAirNavX (test_env (net_only ''127.0.0.1'' 59720)) False
       (later 299999 (snd (bg_detectAirNavX (test_env (net_only ''127.0.0.1'' 59720)) False
                             (bg_init, world_now)))) =
     (Some (''127.0.0.1'', 59720),
      later 299999 (snd (bg_detectAirNavX (test_env (net_only ''127.0.0.1'' 59720)) False
                           (bg_init, world_now)))) \<and>
   length (w_trace (snd (later 299999 (snd (bg_detectAirNavX (test_env (net_only ''127.0.0.1'' 59720)) False
                                              (bg_init, world_now))))))
     < length (w_trace (snd (snd (bg_detectAirNavX (test_env (net_only ''127.0.0.1'' 59720)) True
         (later 299999 (snd (bg_detectAirNavX (test_env (net_only ''127.0.0.1'' 59720)) False
                               (bg_init, world_now)))))))) \<and>
   detectedAirNavX (fst (snd (bg_detectAirNavX (test_env (net_script [])) False (bg_init, world_now)))) = None \<and>
   length (w_trace (snd (later 1 (snd (bg_detectAirNavX (test_env (net_script [])) False (bg_init, world_now))))))
     < length (w_trace (snd (snd (bg_detectAirNavX (test_env (net_script [])) False
         (later 1 (snd (bg_detectAirNavX (test_env (net_script [])) False (bg_init, world_now)))))))) \<and>
   relay_detectAirNavX (test_env (net_only ''127.0.0.1'' 59720)) (JBool True) (relay_found, world0) =
     (Detected ''127.0.0.1'' 59720 ''AirNavX detected at 127.0.0.1:59720'', relay_found, world0) \<and>
   bg_detectAirNavX (test_env (net_only ''127.0.0.1'' 59720)) False (bg_found, world0) =
     (Some (''127.0.0.1'', 59720), bg_found, world0)"
proof -
  let ?E = "test_env (net_only ''127.0.0.1'' 59720)"
  let ?R = "test_env (net_script [])"
  let ?D = "Detected ''127.0.0.1'' 59720 ''AirNavX detected at 127.0.0.1:59720''"
  let ?N = "NotDetected ''AirNavX not detected on any port''"
  let ?pE = "relay_detectAirNavX ?E (JBool False) (relay_init, world_now)"
  let ?pR = "relay_detectAirNavX ?R (JBool False) (relay_init, world_now)"
  let ?qE = "bg_detectAirNavX ?E False (bg_init, world_now)"
  let ?qR = "bg_detectAirNavX ?R False (bg_init, world_now)"
  have pE: "fst ?pE = ?D" "w_clock (snd (snd ?pE)) = 1762000000020"
    by (simp_all add: relay_detectAirNavX_def sweep_eval world_now_def)
  have pR: "fst ?pR = ?N"
    by (simp add: relay_detectAirNavX_def sweep_eval world_now_def)
  have qE: "fst ?qE = Some (''127.0.0.1'', 59720)" "w_clock (snd (snd ?qE)) = 1762000000020"
    by (simp_all add: bg_detectAirNavX_def sweep_eval world_now_def)
  have qR: "fst ?qR = None"
    by (simp add: bg_detectAirNavX_def sweep_eval world_now_def)
  have rmiss: "\<not> (airnavxCache relay_init \<noteq> None \<and>
      w_clock world_now - airnavxCacheTimestamp relay_init < relay_CACHE_DURATION)"
    by (simp add: relay_init_def)
  have cmiss: "False \<or> \<not> bg_cache_valid bg_init (w_clock world_now)"
    by (simp add: bg_init_def bg_cache_valid_def)
  have split3: "x = (fst x, fst (snd x), snd (snd x))" for x :: "'a \<times> 'b \<times> 'c"
    by simp
  have lt: "(fst sw, snd (later ms sw)) = later ms sw" "w_clock (snd (later ms sw)) = w_clock (snd sw) + ms"
    "w_trace (snd (later ms sw)) = w_trace (snd sw)" for ms and sw :: "'s \<times> world"
    by (simp_all add: later_def)
  have in_r: "w_clock (snd (later 29999 sw)) - w_clock (snd sw) < relay_CACHE_DURATION"
    and out_r: "\<not> w_clock (snd (later 30000 sw)) - w_clock (snd sw) < relay_CACHE_DURATION"
    and in_c: "w_clock (snd (later 299999 sw)) - w_clock (snd sw) < bg_CACHE_DURATION"
    for sw :: "'s \<times> world"
    by (simp_all add: later_def relay_CACHE_DURATION_def bg_CACHE_DURATION_def)
  note T1 = C2_cache_policy [of ?E "JBool False" "(relay_init, world_now)"
      "fst (snd ?pE)" "fst ?pE" "snd (later 29999 (snd ?pE))" "JBool True" False "(bg_init, world_now)"
      "fst (snd ?qE)" "(''127.0.0.1'', 59720)" 1762000000020 True
      relay_init world_now "JBool False" "fst ?pE" "fst (snd ?pE)" "snd (snd ?pE)"
      "snd (later 29999 (snd ?pE))" "JBool True"
      False bg_init world_now "fst ?qE" "fst (snd ?qE)" "snd (snd ?qE)"
      "snd (later 299999 (snd ?qE))" True]
  note T2 = C2_cache_policy [of ?R "JBool False" "(relay_init, world_now)"
      "fst (snd ?pR)" "fst ?pR" "snd (later 29999 (snd ?pR))" "JBool False" False "(bg_init, world_now)"
      "fst (snd ?qR)" "(''127.0.0.1'', 59720)" 1762000000020 False
      relay_init world_now "JBool False" "fst ?pR" "fst (snd ?pR)" "snd (snd ?pR)"
      "snd (later 29999 (snd ?pR))" "JBool False"
      False bg_init world_now "fst ?qR" "fst (snd ?qR)" "snd (snd ?qR)"
      "snd (later 1 (snd ?qR))" False]
  note T3 = C2_cache_policy [of ?R "JBool False" "(relay_init, world_now)"
      "fst (snd ?pR)" "fst ?pR" "snd (later 30000 (snd ?pR))" "JBool False" False "(bg_init, world_now)"
      "fst (snd ?qE)" "(''127.0.0.1'', 59720)" 1762000000020 True
      relay_init world_now "JBool False" "fst ?pR" "fst (snd ?pR)" "snd (snd ?pR)"
      "snd (later 30000 (snd ?pR))" "JBool False"
      False bg_init world_now "fst ?qR" "fst (snd ?qR)" "snd (snd ?qR)"
      "snd (later 1 (snd ?qR))" False]
  have hE: "\<not> (airnavxCache relay_init \<noteq> None \<and>
        w_clock world_now - airnavxCacheTimestamp relay_init < relay_CACHE_DURATION) \<and>
      ?pE = (fst ?pE, fst (snd ?pE), snd (snd ?pE))"
    using rmiss split3 [of ?pE] by blast
  have hR: "\<not> (airnavxCache relay_init \<noteq> None \<and>
        w_clock world_now - airnavxCacheTimestamp relay_init < relay_CACHE_DURATION) \<and>
      ?pR = (fst ?pR, fst (snd ?pR), snd (snd ?pR))"
    using rmiss split3 [of ?pR] by blast
  have gE: "(False \<or> \<not> bg_cache_valid bg_init (w_clock world_now)) \<and>
      ?qE = (fst ?qE, fst (snd ?qE), snd (snd ?qE))"
    using cmiss split3 [of ?qE] by blast
  have gR: "(False \<or> \<not> bg_cache_valid bg_init (w_clock world_now)) \<and>
      ?qR = (fst ?qR, fst (snd ?qR), snd (snd ?qR))"
    using cmiss split3 [of ?qR] by blast
  from T1 hE have sE: "fst (snd ?pE) = \<lparr>airnavxCache = Some (fst ?pE),
      airnavxCacheTimestamp = w_clock (snd (snd ?pE))\<rparr>"
    by blast
  have c1: "fst ?pE = ?D"
    by (rule pE(1))
  have c2: "airnavxCacheTimestamp (fst (snd ?pE)) = 1762000000020"
    using sE pE(2) by (metis relay_state.select_convs(2))
  from T1 hE in_r [of "snd ?pE"]
  have "relay_detectAirNavX ?E (JBool True) (fst (snd ?pE), snd (later 29999 (snd ?pE))) =
          (fst ?pE, fst (snd ?pE), snd (later 29999 (snd ?pE)))"
    by blast
  then have c3: "relay_detectAirNavX ?E (JBool True) (later 29999 (snd ?pE)) = (?D, later 29999 (snd ?pE))"
    unfolding lt(1) pE(1) .
  from T2 have "airnavxCache (fst (snd ?pR)) = Some (fst ?pR)"
    by blast
  then have c4: "airnavxCache (fst (snd ?pR)) = Some ?N"
    unfolding pR .
  from T2 hR in_r [of "snd ?pR"]
  have "relay_detectAirNavX ?R (JBool False) (fst (snd ?pR), snd (later 29999 (snd ?pR))) =
          (fst ?pR, fst (snd ?pR), snd (later 29999 (snd ?pR)))"
    by blast
  then have c5: "relay_detectAirNavX ?R (JBool False) (later 29999 (snd ?pR)) = (?N, later 29999 (snd ?pR))"
    unfolding lt(1) pR .
  from T3 hR out_r [of "snd ?pR"]
  have "length (w_trace (snd (later 30000 (snd ?pR))))
          < length (w_trace (snd (snd (relay_detectAirNavX ?R (JBool False)
              (fst (snd ?pR), snd (later 30000 (snd ?pR)))))))"
    by blast
  then have c6: "length (w_trace (snd (later 30000 (snd ?pR))))
          < length (w_trace (snd (snd (relay_detectAirNavX ?R (JBool False) (later 30000 (snd ?pR))))))"
    unfolding lt(1) .
  from T1 gE have "lastDetectionTime (fst (snd ?qE)) = Some (w_clock (snd (snd ?qE)))"
    by blast
  then have c7: "lastDetectionTime (fst (snd ?qE)) = Some 1762000000020"
    unfolding qE(2) .
  have nz: "fst ?qE \<noteq> None \<and> w_clock (snd (snd ?qE)) \<noteq> 0"
    unfolding qE by simp
  from T1 gE nz in_c [of "snd ?qE"]
  have "bg_detectAirNavX ?E False (fst (snd ?qE), snd (later 299999 (snd ?qE))) =
          (fst ?qE, fst (snd ?qE), snd (later 299999 (snd ?qE)))"
    by blast
  then have c8: "bg_detectAirNavX ?E False (later 299999 (snd ?qE)) =
          (Some (''127.0.0.1'', 59720), later 299999 (snd ?qE))"
    unfolding lt(1) qE(1) .
  note T4 = C2_cache_policy [of ?E "JBool False" "(relay_init, world_now)"
      "fst (snd ?pE)" "fst ?pE" "snd (later 299999 (snd ?qE))" "JBool True" False "(bg_init, world_now)"
      "fst (snd ?qE)" "(''127.0.0.1'', 59720)" 1762000000020 True
      relay_init world_now "JBool False" "fst ?pE" "fst (snd ?pE)" "snd (snd ?pE)"
      "snd (later 29999 (snd ?pE))" "JBool True"
      False bg_init world_now "fst ?qE" "fst (snd ?qE)" "snd (snd ?qE)"
      "snd (later 299999 (snd ?qE))" True]
  from T4
  have "length (w_trace (snd (later 299999 (snd ?qE))))
          < length (w_trace (snd (snd (bg_detectAirNavX ?E True
              (fst (snd ?qE), snd (later 299999 (snd ?qE)))))))"
    by blast
  then have c9: "length (w_trace (snd (later 299999 (snd ?qE))))
          < length (w_trace (snd (snd (bg_detectAirNavX ?E True (later 299999 (snd ?qE))))))"
    unfolding lt(1) .
  from T2 have "detectedAirNavX (fst (snd ?qR)) = fst ?qR"
    by blast
  then have c10: "detectedAirNavX (fst (snd ?qR)) = None"
    unfolding qR .
  from T2 gR qR
  have "length (w_trace (snd (later 1 (snd ?qR))))
          < length (w_trace (snd (snd (bg_detectAirNavX ?R False
              (fst (snd ?qR), snd (later 1 (snd ?qR)))))))"
    by blast
  then have c11: "length (w_trace (snd (later 1 (snd ?qR))))
          < length (w_trace (snd (snd (bg_detectAirNavX ?R False (later 1 (snd ?qR))))))"
    unfolding lt(1) .
  have h1: "airnavxCache relay_found = Some ?D \<and>
            w_clock world0 - airnavxCacheTimestamp relay_found < relay_CACHE_DURATION"
    by (simp add: relay_found_def world0_def relay_CACHE_DURATION_def)
  have h2: "detectedAirNavX bg_found = Some (''127.0.0.1'', 59720) \<and>
            lastDetectionTime bg_found = Some 1000 \<and> (1000::int) \<noteq> 0 \<and>
            w_clock world0 - 1000 < bg_CACHE_DURATION"
    by (simp add: bg_found_def world0_def bg_CACHE_DURATION_def)
  note T5 = C2_cache_policy [of ?E "JBool False" "(relay_init, world_now)"
      relay_found ?D world0 "JBool True" False "(bg_init, world_now)"
      bg_found "(''127.0.0.1'', 59720)" 1000 True
      relay_init world_now "JBool False" "fst ?pE" "fst (snd ?pE)" "snd (snd ?pE)"
      "snd (later 29999 (snd ?pE))" "JBool True"
      False bg_init world_now "fst ?qE" "fst (snd ?qE)" "snd (snd ?qE)"
      "snd (later 299999 (snd ?qE))" True]
  from T5 h1 have c12: "relay_detectAirNavX ?E (JBool True) (relay_found, world0) = (?D, relay_found, world0)"
    by blast
  from T5 h2 have c13: "bg_detectAirNavX ?E False (bg_found, world0) =
      (Some (''127.0.0.1'', 59720), bg_found, world0)"
    by blast
  from c1 c2 c3 c4 c5 c6 c7 c8 c9 c10 c11 c12 c13 show ?thesis
    by blast
qed








end
